theory Spec2Isabelle
  imports Complex_Main
begin

text \<open>
  A model of the two scripts of the repository, \<open>scripts/health-check.py\<close> and
  \<open>roles/cluster_health_reporter/files/generate_health_report.py\<close>, and the proofs of the
  claims about them. A script is modelled as the function of its inputs (the answers of the
  network, the readings of the clock) that gives its result and its effects: what it
  prints, the requests it sends, the report it builds and its exit code.
\<close>

section \<open>Python values\<close>

text \<open>
  A Python \<open>str\<close> is a sequence of Unicode code points and \<open>len\<close> counts code points,
  so a string is a list of code points. \<open>S\<close> embeds an ASCII literal of the source; the
  emoji of the source are written as their code points.
\<close>

type_synonym pystr = "nat list"

definition S :: "string \<Rightarrow> pystr" where
  "S s = map of_char s"

text \<open>
  A Python \<open>float\<close>: every finite double is a real number, and the comparisons of a
  float with the integer literals of the source are exact. The zero has a sign:
  \<open>Finite 0\<close> is \<open>0.0\<close> and \<open>NegZero\<close> is \<open>-0.0\<close>, which compares as zero and is
  false as a condition, but is formatted with its sign. NaN compares false with
  everything.
\<close>

datatype pyfloat = Finite real | NegZero | PosInf | NegInf | NaN

fun float_gt :: "pyfloat \<Rightarrow> real \<Rightarrow> bool" where
  "float_gt (Finite x) c = (x > c)"
| "float_gt NegZero c = (0 > c)"
| "float_gt PosInf c = True"
| "float_gt NegInf c = False"
| "float_gt NaN c = False"

fun float_lt :: "pyfloat \<Rightarrow> real \<Rightarrow> bool" where
  "float_lt (Finite x) c = (x < c)"
| "float_lt NegZero c = (0 < c)"
| "float_lt PosInf c = False"
| "float_lt NegInf c = True"
| "float_lt NaN c = False"

text \<open>What \<open>json.loads\<close> (\<open>response.json()\<close>) returns. The keys of an object are distinct.\<close>

datatype json =
    JNull
  | JBool bool
  | JInt int
  | JFloat pyfloat
  | JStr pystr
  | JArr "json list"
  | JObj "(pystr \<times> json) list"

text \<open>
  The exceptions of the two scripts. \<open>RequestException\<close> stands for
  \<open>requests.RequestException\<close> and its subclasses (connection errors, timeouts, the
  \<open>HTTPError\<close> of \<open>raise_for_status\<close>), \<open>OtherException\<close> for any other \<open>Exception\<close> the
  libraries raise; both carry \<open>str(e)\<close>. The rest are raised by the interpreter on a value
  of an unexpected shape.
\<close>

datatype exn =
    RequestException pystr
  | OtherException pystr
  | KeyError
  | IndexError
  | TypeError
  | ValueError
  | AttributeError

text \<open>\<open>bool(x)\<close>, as \<open>if x\<close> and \<open>if not x\<close> take it.\<close>

fun truthy :: "json \<Rightarrow> bool" where
  "truthy JNull = False"
| "truthy (JBool b) = b"
| "truthy (JInt i) = (i \<noteq> 0)"
| "truthy (JFloat f) = (f \<noteq> Finite 0 \<and> f \<noteq> NegZero)"
| "truthy (JStr s) = (s \<noteq> [])"
| "truthy (JArr xs) = (xs \<noteq> [])"
| "truthy (JObj kvs) = (kvs \<noteq> [])"

text \<open>\<open>x[k]\<close> with a string key \<open>k\<close>.\<close>

fun subscript_key :: "json \<Rightarrow> pystr \<Rightarrow> exn + json" where
  "subscript_key (JObj kvs) k = (case map_of kvs k of None \<Rightarrow> Inl KeyError | Some v \<Rightarrow> Inr v)"
| "subscript_key _ k = Inl TypeError"

text \<open>
  \<open>x[i]\<close> with a non-negative integer literal \<open>i\<close>. No key of a JSON object is an integer,
  so an object raises KeyError.
\<close>

fun subscript_idx :: "json \<Rightarrow> nat \<Rightarrow> exn + json" where
  "subscript_idx (JArr xs) i = (if i < length xs then Inr (xs ! i) else Inl IndexError)"
| "subscript_idx (JStr s) i = (if i < length s then Inr (JStr [s ! i]) else Inl IndexError)"
| "subscript_idx (JObj kvs) i = Inl KeyError"
| "subscript_idx _ i = Inl TypeError"

text \<open>\<open>x.get(k, d)\<close>: only a dict has the method.\<close>

fun dict_get :: "json \<Rightarrow> pystr \<Rightarrow> json \<Rightarrow> exn + json" where
  "dict_get (JObj kvs) k d = (case map_of kvs k of None \<Rightarrow> Inr d | Some v \<Rightarrow> Inr v)"
| "dict_get _ k d = Inl AttributeError"

text \<open>The elements \<open>for item in x\<close> runs over.\<close>

fun iterate :: "json \<Rightarrow> exn + json list" where
  "iterate (JArr xs) = Inr xs"
| "iterate (JObj kvs) = Inr (map (\<lambda>kv. JStr (fst kv)) kvs)"
| "iterate (JStr s) = Inr (map (\<lambda>c. JStr [c]) s)"
| "iterate _ = Inl TypeError"

text \<open>\<open>len(x)\<close>.\<close>

fun py_len :: "json \<Rightarrow> exn + nat" where
  "py_len (JArr xs) = Inr (length xs)"
| "py_len (JObj kvs) = Inr (length kvs)"
| "py_len (JStr s) = Inr (length s)"
| "py_len _ = Inl TypeError"

text \<open>A list or a dict cannot be the key of a dict.\<close>

fun hashable :: "json \<Rightarrow> bool" where
  "hashable (JArr xs) = False"
| "hashable (JObj kvs) = False"
| "hashable _ = True"

text \<open>
  A naive \<open>datetime\<close> is a count of microseconds, and a \<open>timedelta\<close> a difference of two.
\<close>

type_synonym datetime = int

definition timedelta_minutes :: "int \<Rightarrow> int" where
  "timedelta_minutes m = m * 60000000"

definition timedelta_days :: "int \<Rightarrow> int" where
  "timedelta_days d = d * 86400000000"

text \<open>
  The builtins whose results the scripts use and whose definition is the interpreter's:
  \<open>int(x)\<close>, \<open>float(x)\<close>, the format \<open>{x:.1f}\<close>, \<open>str(e)\<close> of an exception the
  interpreter raised, \<open>s.strip()\<close>, \<open>t.strftime(f)\<close> and
  \<open>int(t.timestamp() * 1000000000)\<close>, and \<open>str(x)\<close> of a value that is not a string.
  They are parameters of the model.
\<close>

record builtins =
  py_int :: "json \<Rightarrow> exn + int"
  py_float :: "json \<Rightarrow> exn + pyfloat"
  fmt_1f :: "pyfloat \<Rightarrow> pystr"
  exc_str :: "exn \<Rightarrow> pystr"
  py_strip :: "pystr \<Rightarrow> pystr"
  strftime :: "datetime \<Rightarrow> pystr \<Rightarrow> pystr"
  timestamp_ns :: "datetime \<Rightarrow> int"
  py_str :: "json \<Rightarrow> pystr"

text \<open>\<open>str(e)\<close>.\<close>

fun str_exn :: "builtins \<Rightarrow> exn \<Rightarrow> pystr" where
  "str_exn B (RequestException m) = m"
| "str_exn B (OtherException m) = m"
| "str_exn B e = exc_str B e"

text \<open>\<open>str(n)\<close> of an integer: its decimal digits, with a minus sign when negative.\<close>

function str_nat :: "nat \<Rightarrow> pystr" where
  "str_nat n = (if n < 10 then [48 + n] else str_nat (n div 10) @ [48 + n mod 10])"
  by pat_completeness auto
termination
  by (relation "measure (\<lambda>n. n)") auto

declare str_nat.simps [simp del]

definition str_int :: "int \<Rightarrow> pystr" where
  "str_int i = (if i < 0 then 45 # str_nat (nat (- i)) else str_nat (nat i))"

section \<open>Effects: exceptions, output, the network\<close>

text \<open>
  A computation takes the state and returns the new state with its result, or with the
  exception it raised.
\<close>

type_synonym ('a, 's) py = "'s \<Rightarrow> (exn + 'a) \<times> 's"

definition ok :: "'a \<Rightarrow> ('a, 's) py" where
  "ok x s = (Inr x, s)"

definition lift :: "exn + 'a \<Rightarrow> ('a, 's) py" where
  "lift r s = (r, s)"

definition effect :: "('s \<Rightarrow> 's) \<Rightarrow> (unit, 's) py" where
  "effect f s = (Inr (), f s)"

definition reads :: "('s \<Rightarrow> 'a) \<Rightarrow> ('a, 's) py" where
  "reads f s = (Inr (f s), s)"

definition andthen :: "('a, 's) py \<Rightarrow> ('a \<Rightarrow> ('b, 's) py) \<Rightarrow> ('b, 's) py" where
  "andthen m f s = (case m s of (Inl e, s') \<Rightarrow> (Inl e, s') | (Inr x, s') \<Rightarrow> f x s')"

text \<open>
  \<open>try: m except ...: h\<close>. The handler \<open>h e\<close> is \<open>None\<close> when no \<open>except\<close> clause matches
  \<open>e\<close>, and the exception goes on.
\<close>

definition try_except :: "('a, 's) py \<Rightarrow> (exn \<Rightarrow> ('a, 's) py option) \<Rightarrow> ('a, 's) py" where
  "try_except m h s =
     (case m s of
        (Inl e, s') \<Rightarrow> (case h e of None \<Rightarrow> (Inl e, s') | Some k \<Rightarrow> k s')
      | (Inr x, s') \<Rightarrow> (Inr x, s'))"

text \<open>
  A \<open>for\<close> loop whose body updates the local variables \<open>acc\<close> and the state; it stops
  at the first exception.
\<close>

fun for_loop :: "'a list \<Rightarrow> ('a \<Rightarrow> 'b \<Rightarrow> ('b, 's) py) \<Rightarrow> 'b \<Rightarrow> ('b, 's) py" where
  "for_loop [] body acc s = (Inr acc, s)"
| "for_loop (x # xs) body acc s =
     (case body x acc s of
        (Inl e, s') \<Rightarrow> (Inl e, s')
      | (Inr acc', s') \<Rightarrow> for_loop xs body acc' s')"

text \<open>
  Sequencing, and the \<open>for\<close> loop, for expressions that may raise and have no effect but
  on local variables.
\<close>

definition sbind :: "exn + 'a \<Rightarrow> ('a \<Rightarrow> exn + 'b) \<Rightarrow> exn + 'b" where
  "sbind r f = (case r of Inl e \<Rightarrow> Inl e | Inr x \<Rightarrow> f x)"

fun for_pure :: "'a list \<Rightarrow> ('a \<Rightarrow> 'b \<Rightarrow> exn + 'b) \<Rightarrow> 'b \<Rightarrow> exn + 'b" where
  "for_pure [] body acc = Inr acc"
| "for_pure (x # xs) body acc =
     (case body x acc of Inl e \<Rightarrow> Inl e | Inr acc' \<Rightarrow> for_pure xs body acc')"

text \<open>
  One call of \<open>requests.get\<close> or \<open>requests.post\<close>, and what it does: it returns a
  response or raises. \<open>body_json\<close> is what \<open>response.json()\<close> does on the response,
  and \<open>error_text\<close> the text of the error \<open>response.raise_for_status()\<close> raises on it.
\<close>

datatype verb = GET | POST

record request =
  verb :: verb
  url :: pystr
  params :: "(pystr \<times> json) list"
  payload :: "json option"
  verify :: bool
  timeout :: nat

record response =
  status_code :: int
  body_text :: pystr
  body_json :: "exn + json"
  error_text :: pystr

datatype http_result = Returns response | Raises exn

text \<open>
  The network answers the \<open>n\<close>-th request of the run: a run is sequential, so this is
  every behaviour the scripts can meet.
\<close>

type_synonym network = "nat \<Rightarrow> request \<Rightarrow> http_result"

text \<open>
  What a process has done so far: the lines it printed on standard output and on standard
  error, and the requests it sent.
\<close>

record process =
  stdout :: "pystr list"
  stderr :: "pystr list"
  sent :: "request list"

definition py_print :: "pystr \<Rightarrow> 'a process_scheme \<Rightarrow> 'a process_scheme" where
  "py_print line s = s\<lparr>stdout := stdout s @ [line]\<rparr>"

definition print_stderr :: "pystr \<Rightarrow> 'a process_scheme \<Rightarrow> 'a process_scheme" where
  "print_stderr line s = s\<lparr>stderr := stderr s @ [line]\<rparr>"

definition requests_call :: "network \<Rightarrow> request \<Rightarrow> (response, 'a process_scheme) py" where
  "requests_call net req s =
     (case net (length (sent s)) req of
        Returns r \<Rightarrow> (Inr r, s\<lparr>sent := sent s @ [req]\<rparr>)
      | Raises e \<Rightarrow> (Inl e, s\<lparr>sent := sent s @ [req]\<rparr>))"

section \<open>health-check.py: the health manager\<close>

record health_report =
  timestamp :: pystr
  overall_status :: pystr
  issues :: "pystr list"
  warnings :: "pystr list"
  actions_taken :: "pystr list"

text \<open>The \<open>K8sHealthManager\<close> object, in its process.\<close>

record manager = process +
  prometheus_url :: pystr
  loki_url :: pystr
  k8s_api_url :: pystr
  cluster_nodes :: "pystr list"
  health_report :: health_report

text \<open>\<open>__init__\<close>; \<open>now_iso\<close> is \<open>datetime.now().isoformat()\<close>.\<close>

definition K8sHealthManager :: "pystr \<Rightarrow> manager" where
  "K8sHealthManager now_iso =
     \<lparr> stdout = [], stderr = [], sent = [],
       prometheus_url = S ''http://prometheus.home'',
       loki_url = S ''http://192.168.1.143:3100'',
       k8s_api_url = S ''https://192.168.1.99:6443'',
       cluster_nodes = [S ''kube501.home'', S ''kube502.home'', S ''kube503.home'', S ''kube511.home''],
       health_report =
         \<lparr> timestamp = now_iso,
           overall_status = S ''HEALTHY'',
           issues = [],
           warnings = [],
           actions_taken = [] \<rparr> \<rparr>"

definition add_issue :: "pystr \<Rightarrow> manager \<Rightarrow> manager" where
  "add_issue message s =
     py_print (S ''  '' @ [0x274C] @ S '' ISSUE: '' @ message)
       (s\<lparr>health_report := (health_report s)
            \<lparr>issues := issues (health_report s) @ [message],
             overall_status := S ''UNHEALTHY''\<rparr>\<rparr>)"

definition add_warning :: "pystr \<Rightarrow> manager \<Rightarrow> manager" where
  "add_warning message s =
     py_print (S ''  '' @ [0x26A0, 0xFE0F] @ S ''  WARNING: '' @ message)
       (let r = (health_report s)\<lparr>warnings := warnings (health_report s) @ [message]\<rparr>
        in s\<lparr>health_report :=
               (if overall_status r = S ''HEALTHY'' then r\<lparr>overall_status := S ''WARNING''\<rparr> else r)\<rparr>)"

definition add_action :: "pystr \<Rightarrow> manager \<Rightarrow> manager" where
  "add_action message s =
     py_print (S ''  '' @ [0x1F527] @ S '' ACTION: '' @ message)
       (s\<lparr>health_report := (health_report s)
            \<lparr>actions_taken := actions_taken (health_report s) @ [message]\<rparr>\<rparr>)"

text \<open>
  \<open>query_prometheus\<close> of the manager. \<open>None\<close> is \<open>JNull\<close>, which is also what
  \<open>response.json()\<close> returns on the body \<open>null\<close>.
\<close>

definition prometheus_request :: "pystr \<Rightarrow> pystr \<Rightarrow> nat \<Rightarrow> request" where
  "prometheus_request base query t =
     \<lparr> verb = GET, url = base @ S ''/api/v1/query'', params = [(S ''query'', JStr query)],
       payload = None, verify = True, timeout = t \<rparr>"

definition hm_query_prometheus :: "network \<Rightarrow> pystr \<Rightarrow> (json, manager) py" where
  "hm_query_prometheus net query =
     andthen (reads prometheus_url) (\<lambda>base.
     try_except
       (andthen (requests_call net (prometheus_request base query 10)) (\<lambda>response.
          if status_code response = 200 then lift (body_json response) else ok JNull))
       (\<lambda>e. case e of
          RequestException m \<Rightarrow>
            Some (andthen (effect (add_issue (S ''Prometheus query failed: '' @ m))) (\<lambda>_. ok JNull))
        | _ \<Rightarrow> None))"

text \<open>The rows \<open>result['data']['result']\<close> a loop runs over.\<close>

definition result_rows :: "json \<Rightarrow> exn + json list" where
  "result_rows result =
     sbind (subscript_key result (S ''data'')) (\<lambda>d.
     sbind (subscript_key d (S ''result'')) iterate)"

text \<open>\<open>metric['metric']['instance']\<close> and \<open>metric['value'][1]\<close> of a row.\<close>

definition row_instance :: "json \<Rightarrow> exn + json" where
  "row_instance metric = sbind (subscript_key metric (S ''metric'')) (\<lambda>m. subscript_key m (S ''instance''))"

definition row_value :: "json \<Rightarrow> exn + json" where
  "row_value metric = sbind (subscript_key metric (S ''value'')) (\<lambda>v. subscript_idx v 1)"

text \<open>
  The body of the loop that fills \<open>node_status\<close> (and \<open>cadvisor_status\<close>): only a string
  key is ever looked up in the dict, so the dict is a map on strings, and a hashable key
  of another type leaves it as it is.
\<close>

definition status_step :: "builtins \<Rightarrow> json \<Rightarrow> (pystr \<rightharpoonup> bool) \<Rightarrow> exn + (pystr \<rightharpoonup> bool)" where
  "status_step B metric node_status =
     sbind (row_instance metric) (\<lambda>instance.
     sbind (sbind (row_value metric) (py_int B)) (\<lambda>status.
       if \<not> hashable instance then Inl TypeError
       else Inr (case instance of
                   JStr name \<Rightarrow> node_status(name \<mapsto> (status = 1))
                 | _ \<Rightarrow> node_status)))"

definition status_dict :: "builtins \<Rightarrow> json \<Rightarrow> exn + (pystr \<rightharpoonup> bool)" where
  "status_dict B result = sbind (result_rows result) (\<lambda>rows. for_pure rows (status_step B) Map.empty)"

text \<open>The body of the loop over \<open>self.cluster_nodes\<close> in \<open>check_node_health\<close>.\<close>

definition node_check :: "(pystr \<rightharpoonup> bool) \<Rightarrow> pystr \<Rightarrow> bool \<Rightarrow> (bool, manager) py" where
  "node_check node_status node all_healthy =
     (case node_status node of
        Some up \<Rightarrow>
          if up then
            andthen (effect (py_print (S ''  '' @ [0x2705] @ S '' '' @ node @ S '' - UP''))) (\<lambda>_.
            ok all_healthy)
          else
            andthen (effect (py_print (S ''  '' @ [0x274C] @ S '' '' @ node @ S '' - DOWN''))) (\<lambda>_.
            andthen (effect (add_issue (S ''Node exporter down on '' @ node))) (\<lambda>_.
            ok False))
      | None \<Rightarrow>
          andthen (effect (py_print (S ''  '' @ [0x26A0, 0xFE0F] @ S ''  '' @ node @ S '' - NO METRICS''))) (\<lambda>_.
          andthen (effect (add_warning (S ''No metrics found for '' @ node))) (\<lambda>_.
          ok False)))"

text \<open>The two loops of \<open>check_node_resources\<close>.\<close>

definition cpu_step :: "builtins \<Rightarrow> json \<Rightarrow> unit \<Rightarrow> (unit, manager) py" where
  "cpu_step B metric u =
     andthen (lift (row_instance metric)) (\<lambda>instance.
     andthen (reads cluster_nodes) (\<lambda>nodes.
       case instance of
         JStr name \<Rightarrow>
           if name \<in> set nodes then
             andthen (lift (sbind (row_value metric) (py_float B))) (\<lambda>cpu_usage.
             andthen (if float_gt cpu_usage 90 then
                        effect (add_issue (S ''High CPU usage on '' @ name @ S '': '' @ fmt_1f B cpu_usage @ S ''%''))
                      else if float_gt cpu_usage 75 then
                        effect (add_warning (S ''Elevated CPU usage on '' @ name @ S '': '' @ fmt_1f B cpu_usage @ S ''%''))
                      else ok ()) (\<lambda>_.
             effect (py_print (S ''  '' @ [0x1F4BE] @ S '' '' @ name @ S '' CPU: '' @ fmt_1f B cpu_usage @ S ''%''))))
           else ok ()
       | _ \<Rightarrow> ok ()))"

definition memory_step :: "builtins \<Rightarrow> json \<Rightarrow> unit \<Rightarrow> (unit, manager) py" where
  "memory_step B metric u =
     andthen (lift (row_instance metric)) (\<lambda>instance.
     andthen (reads cluster_nodes) (\<lambda>nodes.
       case instance of
         JStr name \<Rightarrow>
           if name \<in> set nodes then
             andthen (lift (sbind (row_value metric) (py_float B))) (\<lambda>memory_usage.
             andthen (if float_gt memory_usage 90 then
                        effect (add_issue (S ''High memory usage on '' @ name @ S '': '' @ fmt_1f B memory_usage @ S ''%''))
                      else if float_gt memory_usage 80 then
                        effect (add_warning (S ''Elevated memory usage on '' @ name @ S '': '' @ fmt_1f B memory_usage @ S ''%''))
                      else ok ()) (\<lambda>_.
             effect (py_print (S ''  '' @ [0x1F9E0] @ S '' '' @ name @ S '' Memory: '' @ fmt_1f B memory_usage @ S ''%''))))
           else ok ()
       | _ \<Rightarrow> ok ()))"

definition cpu_query :: pystr where
  "cpu_query = S ''(1 - avg(rate(node_cpu_seconds_total{mode=\"idle\"}[5m])) by (instance)) * 100''"

definition memory_query :: pystr where
  "memory_query = S ''(1 - (node_memory_MemAvailable_bytes / node_memory_MemTotal_bytes)) * 100''"

definition check_node_resources :: "builtins \<Rightarrow> network \<Rightarrow> (unit, manager) py" where
  "check_node_resources B net =
     andthen (effect (py_print ([0x1F4CA] @ S '' Checking Node Resources...''))) (\<lambda>_.
     andthen (hm_query_prometheus net cpu_query) (\<lambda>result.
     andthen (if truthy result
              then andthen (lift (result_rows result)) (\<lambda>rows. for_loop rows (cpu_step B) ())
              else ok ()) (\<lambda>_.
     andthen (hm_query_prometheus net memory_query) (\<lambda>result.
     if truthy result
     then andthen (lift (result_rows result)) (\<lambda>rows. for_loop rows (memory_step B) ())
     else ok ()))))"

definition check_node_health :: "builtins \<Rightarrow> network \<Rightarrow> (bool, manager) py" where
  "check_node_health B net =
     andthen (effect (py_print ([0x1F5A5, 0xFE0F] @ S ''  Checking Node Health...''))) (\<lambda>_.
     andthen (hm_query_prometheus net (S ''up{job='node_exporter'}'')) (\<lambda>result.
     if \<not> truthy result then ok False
     else
       andthen (lift (status_dict B result)) (\<lambda>node_status.
       andthen (reads cluster_nodes) (\<lambda>nodes.
       andthen (for_loop nodes (node_check node_status) True) (\<lambda>all_healthy.
       andthen (check_node_resources B net) (\<lambda>_.
       ok all_healthy))))))"

text \<open>\<open>requests.get(f"{self.k8s_api_url}/healthz", verify=False, timeout=5)\<close>\<close>

definition healthz_request :: "pystr \<Rightarrow> request" where
  "healthz_request base =
     \<lparr> verb = GET, url = base @ S ''/healthz'', params = [], payload = None,
       verify = False, timeout = 5 \<rparr>"

definition check_kubernetes_api :: "builtins \<Rightarrow> network \<Rightarrow> (bool, manager) py" where
  "check_kubernetes_api B net =
     andthen (effect (py_print ([0x1F39B, 0xFE0F] @ S ''  Checking Kubernetes API Health...''))) (\<lambda>_.
     andthen (reads k8s_api_url) (\<lambda>base.
     try_except
       (andthen (requests_call net (healthz_request base)) (\<lambda>response.
        if status_code response = 200 \<and> py_strip B (body_text response) = S ''ok'' then
          andthen (effect (py_print (S ''  '' @ [0x2705] @ S '' API Server - HEALTHY''))) (\<lambda>_.
          ok True)
        else
          andthen (effect (add_issue (S ''API server health check failed: '' @ str_int (status_code response)))) (\<lambda>_.
          ok False)))
       (\<lambda>e. case e of
          RequestException m \<Rightarrow>
            Some (andthen (effect (add_issue (S ''Cannot reach Kubernetes API: '' @ m))) (\<lambda>_. ok False))
        | _ \<Rightarrow> None)))"

text \<open>The body of the loop over \<open>self.cluster_nodes\<close> in \<open>check_container_metrics\<close>.\<close>

definition cadvisor_check :: "(pystr \<rightharpoonup> bool) \<Rightarrow> pystr \<Rightarrow> bool \<Rightarrow> (bool, manager) py" where
  "cadvisor_check cadvisor_status node all_healthy =
     (case cadvisor_status node of
        Some up \<Rightarrow>
          if up then
            andthen (effect (py_print (S ''  '' @ [0x2705] @ S '' '' @ node @ S '' cAdvisor - UP''))) (\<lambda>_.
            ok all_healthy)
          else
            andthen (effect (py_print (S ''  '' @ [0x274C] @ S '' '' @ node @ S '' cAdvisor - DOWN''))) (\<lambda>_.
            andthen (effect (add_issue (S ''cAdvisor down on '' @ node))) (\<lambda>_.
            ok False))
      | None \<Rightarrow>
          andthen (effect (py_print (S ''  '' @ [0x26A0, 0xFE0F] @ S ''  '' @ node @ S '' cAdvisor - NO METRICS''))) (\<lambda>_.
          andthen (effect (add_warning (S ''cAdvisor not reporting from '' @ node))) (\<lambda>_.
          ok False)))"

definition check_container_metrics :: "builtins \<Rightarrow> network \<Rightarrow> (bool, manager) py" where
  "check_container_metrics B net =
     andthen (effect (py_print ([0x1F433] @ S '' Checking Container Metrics...''))) (\<lambda>_.
     andthen (hm_query_prometheus net (S ''up{job='cadvisor'}'')) (\<lambda>result.
     if \<not> truthy result then ok False
     else
       andthen (lift (status_dict B result)) (\<lambda>cadvisor_status.
       andthen (reads cluster_nodes) (\<lambda>nodes.
       for_loop nodes (cadvisor_check cadvisor_status) True))))"

definition critical_patterns :: "pystr list" where
  "critical_patterns =
     [S ''kubelet.*failed'', S ''apiserver.*error'', S ''etcd.*error'', S ''scheduler.*failed'',
      S ''controller.*error'']"

text \<open>\<open>sum(len(stream['values']) for stream in rows)\<close>.\<close>

definition count_values :: "json list \<Rightarrow> exn + nat" where
  "count_values rows =
     for_pure rows (\<lambda>stream total.
       sbind (sbind (subscript_key stream (S ''values'')) py_len) (\<lambda>n. Inr (total + n))) 0"

text \<open>
  The body of the loop of \<open>check_critical_logs\<close>; \<open>now\<close> is the \<open>datetime.now()\<close> the
  function read before the loop.
\<close>

definition logs_step :: "builtins \<Rightarrow> network \<Rightarrow> datetime \<Rightarrow> pystr \<Rightarrow> unit \<Rightarrow> (unit, manager) py" where
  "logs_step B net now pattern u =
     andthen (reads loki_url) (\<lambda>base.
     try_except
       (andthen (requests_call net
            \<lparr> verb = GET, url = base @ S ''/loki/api/v1/query_range'',
              params =
                [(S ''query'', JStr (S ''{job=\"node_exporter\"} |~ \"'' @ pattern @ S ''\"'')),
                 (S ''start'', JInt (timestamp_ns B (now - timedelta_minutes 15))),
                 (S ''end'', JInt (timestamp_ns B now)),
                 (S ''limit'', JInt 10)],
              payload = None, verify = True, timeout = 10 \<rparr>) (\<lambda>response.
        if status_code response = 200 then
          andthen (lift (body_json response)) (\<lambda>data.
          andthen (lift (sbind (subscript_key data (S ''data'')) (\<lambda>d. subscript_key d (S ''result'')))) (\<lambda>rows.
          if truthy rows then
            andthen (lift (sbind (iterate rows) count_values)) (\<lambda>count.
            if count > 0 then
              effect (add_warning (S ''Found '' @ str_nat count @ S '' critical log entries for pattern: '' @ pattern))
            else ok ())
          else ok ()))
        else ok ()))
       (\<lambda>e. case e of RequestException m \<Rightarrow> Some (ok ()) | _ \<Rightarrow> None))"

definition check_critical_logs :: "builtins \<Rightarrow> network \<Rightarrow> datetime \<Rightarrow> (unit, manager) py" where
  "check_critical_logs B net now =
     andthen (effect (py_print ([0x1F4DC] @ S '' Checking Critical Logs...''))) (\<lambda>_.
     for_loop critical_patterns (logs_step B net now) ())"

text \<open>The three closing lists of \<open>run_health_check\<close>.\<close>

definition print_list :: "pystr \<Rightarrow> pystr list \<Rightarrow> (unit, manager) py" where
  "print_list title entries =
     (if entries \<noteq> [] then
        andthen (effect (py_print title)) (\<lambda>_.
        for_loop entries (\<lambda>entry u. effect (py_print (S ''   '' @ [0x2022] @ S '' '' @ entry))) ())
      else ok ())"

definition run_health_check :: "builtins \<Rightarrow> network \<Rightarrow> datetime \<Rightarrow> (health_report, manager) py" where
  "run_health_check B net now =
     andthen (effect (py_print ([0x1F3E5] @ S '' Kubernetes Health Manager - Health Check Starting''))) (\<lambda>_.
     andthen (effect (py_print (replicate 60 61))) (\<lambda>_.
     andthen (check_node_health B net) (\<lambda>node_health.
     andthen (check_kubernetes_api B net) (\<lambda>api_health.
     andthen (check_container_metrics B net) (\<lambda>container_health.
     andthen (check_critical_logs B net now) (\<lambda>_.
     andthen (effect (py_print (replicate 60 61))) (\<lambda>_.
     andthen (reads (\<lambda>s. overall_status (health_report s))) (\<lambda>st.
     andthen (effect (py_print ([0x1F3AF] @ S '' Overall Status: '' @ st))) (\<lambda>_.
     andthen (reads (\<lambda>s. issues (health_report s))) (\<lambda>is.
     andthen (print_list (10 # 0x274C # S '' CRITICAL ISSUES:'') is) (\<lambda>_.
     andthen (reads (\<lambda>s. warnings (health_report s))) (\<lambda>ws.
     andthen (print_list ([10, 0x26A0, 0xFE0F] @ S ''  WARNINGS:'') ws) (\<lambda>_.
     andthen (reads (\<lambda>s. actions_taken (health_report s))) (\<lambda>as.
     andthen (print_list (10 # 0x1F527 # S '' ACTIONS TAKEN:'') as) (\<lambda>_.
     reads health_report)))))))))))))))"

text \<open>
  The script: the exit code of a run that completes, or the exception that ends it.
  \<open>now_iso\<close> and \<open>now\<close> are the two readings of the clock.
\<close>

definition exit_code :: "pystr \<Rightarrow> int" where
  "exit_code st = (if st = S ''UNHEALTHY'' then 1 else if st = S ''WARNING'' then 2 else 0)"

datatype ending = Exit int | Uncaught exn

definition main :: "builtins \<Rightarrow> network \<Rightarrow> pystr \<Rightarrow> datetime \<Rightarrow> ending \<times> manager" where
  "main B net now_iso now =
     (case run_health_check B net now (K8sHealthManager now_iso) of
        (Inl e, s) \<Rightarrow> (Uncaught e, s)
      | (Inr report, s) \<Rightarrow> (Exit (exit_code (overall_status report)), s))"

text \<open>The status of the report the manager holds.\<close>

definition status_of :: "manager \<Rightarrow> pystr" where
  "status_of s = overall_status (health_report s)"

text \<open>
  A sequence of calls of the three mutation operations, to state what any such sequence
  does to the status; \<open>severity\<close> orders the three statuses.
\<close>

datatype mutation = Issue pystr | Warning pystr | Action pystr

fun mutate :: "manager \<Rightarrow> mutation \<Rightarrow> manager" where
  "mutate s (Issue m) = add_issue m s"
| "mutate s (Warning m) = add_warning m s"
| "mutate s (Action m) = add_action m s"

definition severity :: "pystr \<Rightarrow> nat" where
  "severity st = (if st = S ''UNHEALTHY'' then 2 else if st = S ''WARNING'' then 1 else 0)"

section \<open>generate_health_report.py: the health reporter\<close>

text \<open>The \<open>ClusterHealthReporter\<close> object, in its process.\<close>

record reporter = process +
  r_prometheus_url :: pystr
  report_type :: pystr
  r_timestamp :: datetime

text \<open>\<open>s.rstrip('/')\<close>.\<close>

definition rstrip_slash :: "pystr \<Rightarrow> pystr" where
  "rstrip_slash s = rev (dropWhile (\<lambda>c. c = 47) (rev s))"

text \<open>\<open>__init__\<close>; \<open>now\<close> is the \<open>datetime.now()\<close> it reads.\<close>

definition ClusterHealthReporter :: "pystr \<Rightarrow> pystr \<Rightarrow> datetime \<Rightarrow> reporter" where
  "ClusterHealthReporter prometheus_url' report_type' now =
     \<lparr> stdout = [], stderr = [], sent = [],
       r_prometheus_url = rstrip_slash prometheus_url',
       report_type = report_type',
       r_timestamp = now \<rparr>"

text \<open>
  \<open>response.raise_for_status()\<close>: it raises an \<open>HTTPError\<close>, whose text is \<open>error_text\<close>,
  on a status from 400 to 599.
\<close>

definition raise_for_status :: "response \<Rightarrow> exn + unit" where
  "raise_for_status r =
     (if 400 \<le> status_code r \<and> status_code r < 600 then Inl (RequestException (error_text r))
      else Inr ())"

text \<open>\<open>{"status": "error", "data": {"result": []}}\<close>\<close>

definition no_data :: json where
  "no_data = JObj [(S ''status'', JStr (S ''error'')), (S ''data'', JObj [(S ''result'', JArr [])])]"

text \<open>\<open>query_prometheus\<close> of the reporter: \<open>except Exception\<close> takes every exception.\<close>

definition chr_query_prometheus :: "builtins \<Rightarrow> network \<Rightarrow> pystr \<Rightarrow> (json, reporter) py" where
  "chr_query_prometheus B net query =
     andthen (reads r_prometheus_url) (\<lambda>base.
     try_except
       (andthen (requests_call net (prometheus_request base query 30)) (\<lambda>response.
        andthen (lift (raise_for_status response)) (\<lambda>_.
        lift (body_json response))))
       (\<lambda>e. Some
          (andthen (effect (print_stderr (S ''Error querying Prometheus: '' @ str_exn B e))) (\<lambda>_.
           ok no_data))))"

text \<open>\<open>result.get('data', {}).get('result', [])\<close>\<close>

definition get_result :: "json \<Rightarrow> exn + json" where
  "get_result result =
     sbind (dict_get result (S ''data'') (JObj [])) (\<lambda>d. dict_get d (S ''result'') (JArr []))"

text \<open>\<open>item['metric'].get('instance', 'unknown')\<close>\<close>

definition item_instance :: "json \<Rightarrow> exn + json" where
  "item_instance item =
     sbind (subscript_key item (S ''metric'')) (\<lambda>m. dict_get m (S ''instance'') (JStr (S ''unknown'')))"

text \<open>
  \<open>get_node_status\<close>. An entry \<open>{"node": node, "status": status}\<close> of its list is the
  pair \<open>(node, status)\<close>.
\<close>

definition node_entry :: "json \<Rightarrow> exn + json \<times> pystr" where
  "node_entry item =
     sbind (item_instance item) (\<lambda>node.
     sbind (row_value item) (\<lambda>v1.
     Inr (node, if v1 = JStr (S ''1'') then S ''UP'' else S ''DOWN'')))"

definition get_node_status :: "builtins \<Rightarrow> network \<Rightarrow> ((json \<times> pystr) list, reporter) py" where
  "get_node_status B net =
     andthen (chr_query_prometheus B net (S ''up{job=\"node-exporter\"}'')) (\<lambda>result.
     lift (sbind (sbind (get_result result) iterate) (\<lambda>items.
       for_pure items (\<lambda>item nodes. sbind (node_entry item) (\<lambda>n. Inr (nodes @ [n]))) [])))"

text \<open>
  \<open>get_resource_usage\<close>. The dict \<open>usage\<close> is the list of its items in the order of
  insertion, and an entry \<open>{'node': node, 'value': v}\<close> is the pair \<open>(node, v)\<close>.
\<close>

definition usage_queries :: "(pystr \<times> pystr) list" where
  "usage_queries =
     [(S ''cpu'', S ''100 - (avg by (instance) (irate(node_cpu_seconds_total{mode=\"idle\"}[5m])) * 100)''),
      (S ''memory'', S ''(1 - (node_memory_MemAvailable_bytes / node_memory_MemTotal_bytes)) * 100''),
      (S ''disk'', S ''(1 - (node_filesystem_avail_bytes{fstype!=\"tmpfs\"} / node_filesystem_size_bytes{fstype!=\"tmpfs\"})) * 100'')]"

definition usage_entry :: "builtins \<Rightarrow> json \<Rightarrow> exn + json \<times> pyfloat" where
  "usage_entry B item =
     sbind (item_instance item) (\<lambda>node.
     sbind (sbind (row_value item) (py_float B)) (\<lambda>v.
     Inr (node, v)))"

definition get_resource_usage ::
  "builtins \<Rightarrow> network \<Rightarrow> ((pystr \<times> (json \<times> pyfloat) list) list, reporter) py" where
  "get_resource_usage B net =
     for_loop usage_queries (\<lambda>mq usage.
       andthen (chr_query_prometheus B net (snd mq)) (\<lambda>result.
       andthen (lift (sbind (sbind (get_result result) iterate) (\<lambda>items.
          for_pure items (\<lambda>item entries. sbind (usage_entry B item) (\<lambda>e. Inr (entries @ [e]))) []))) (\<lambda>entries.
       ok (usage @ [(fst mq, entries)])))) []"

text \<open>\<open>get_pod_status\<close>; the dict \<open>status\<close> is the list of its items.\<close>

definition pod_queries :: "(pystr \<times> pystr) list" where
  "pod_queries =
     [(S ''running'', S ''count(kube_pod_status_phase{phase=\"Running\"})''),
      (S ''pending'', S ''count(kube_pod_status_phase{phase=\"Pending\"})''),
      (S ''failed'', S ''count(kube_pod_status_phase{phase=\"Failed\"})''),
      (S ''total'', S ''count(kube_pod_info)'')]"

definition pod_count :: "builtins \<Rightarrow> json \<Rightarrow> exn + int" where
  "pod_count B result =
     sbind (get_result result) (\<lambda>v.
       if truthy v then
         sbind (sbind (sbind (subscript_idx v 0) (\<lambda>first. subscript_key first (S ''value''))) (\<lambda>x. subscript_idx x 1)) (py_int B)
       else Inr 0)"

definition get_pod_status :: "builtins \<Rightarrow> network \<Rightarrow> ((pystr \<times> int) list, reporter) py" where
  "get_pod_status B net =
     for_loop pod_queries (\<lambda>pq status.
       andthen (chr_query_prometheus B net (snd pq)) (\<lambda>result.
       andthen (lift (pod_count B result)) (\<lambda>n.
       ok (status @ [(fst pq, n)])))) []"

text \<open>\<open>get_alerts\<close>.\<close>

record alert =
  alert_name :: json
  alert_severity :: json
  alert_summary :: json
  alert_since :: json

definition alert_entry :: "json \<Rightarrow> alert list \<Rightarrow> exn + alert list" where
  "alert_entry a alerts =
     sbind (dict_get a (S ''state'') JNull) (\<lambda>state.
       if state = JStr (S ''firing'') then
         sbind (sbind (dict_get a (S ''labels'') (JObj [])) (\<lambda>l. dict_get l (S ''alertname'') (JStr (S ''Unknown'')))) (\<lambda>n.
         sbind (sbind (dict_get a (S ''labels'') (JObj [])) (\<lambda>l. dict_get l (S ''severity'') (JStr (S ''info'')))) (\<lambda>sev.
         sbind (sbind (dict_get a (S ''annotations'') (JObj [])) (\<lambda>l. dict_get l (S ''summary'') (JStr []))) (\<lambda>sm.
         sbind (dict_get a (S ''activeAt'') (JStr [])) (\<lambda>since.
         Inr (alerts @ [\<lparr> alert_name = n, alert_severity = sev, alert_summary = sm, alert_since = since \<rparr>])))))
       else Inr alerts)"

definition get_alerts :: "builtins \<Rightarrow> network \<Rightarrow> (alert list, reporter) py" where
  "get_alerts B net =
     andthen (reads r_prometheus_url) (\<lambda>base.
     try_except
       (andthen (requests_call net
            \<lparr> verb = GET, url = base @ S ''/api/v1/alerts'', params = [], payload = None,
              verify = True, timeout = 30 \<rparr>) (\<lambda>response.
        andthen (lift (raise_for_status response)) (\<lambda>_.
        andthen (lift (body_json response)) (\<lambda>data.
        lift (sbind (sbind (sbind (dict_get data (S ''data'') (JObj [])) (\<lambda>d. dict_get d (S ''alerts'') (JArr []))) iterate) (\<lambda>items.
          for_pure items alert_entry []))))))
       (\<lambda>e. Some
          (andthen (effect (print_stderr (S ''Error getting alerts: '' @ str_exn B e))) (\<lambda>_.
           ok []))))"

text \<open>
  What an f-string writes for a value: a string as it is, any other value as \<open>str\<close> of
  the interpreter gives it.
\<close>

definition format_json :: "builtins \<Rightarrow> json \<Rightarrow> pystr" where
  "format_json B j = (case j of JStr s \<Rightarrow> s | _ \<Rightarrow> py_str B j)"

text \<open>\<open>"\n".join(report)\<close>\<close>

fun join_lines :: "pystr list \<Rightarrow> pystr" where
  "join_lines [] = []"
| "join_lines [l] = l"
| "join_lines (l # ls) = l @ 10 # join_lines ls"

text \<open>\<open>metric.upper()\<close>, for the keys of \<open>usage\<close>, which are ASCII.\<close>

definition upper :: "pystr \<Rightarrow> pystr" where
  "upper s = map (\<lambda>c. if 97 \<le> c \<and> c \<le> 122 then c - 32 else c) s"

text \<open>The sections of the daily report, as \<open>generate_daily_report\<close> appends them.\<close>

definition banner_lines :: "builtins \<Rightarrow> datetime \<Rightarrow> pystr list" where
  "banner_lines B ts =
     [replicate 60 61,
      S ''Kubernetes Cluster Health Report - Daily'',
      S ''Generated: '' @ strftime B ts (S ''%Y-%m-%d %H:%M:%S''),
      replicate 60 61,
      []]"

definition node_lines :: "builtins \<Rightarrow> (json \<times> pystr) list \<Rightarrow> pystr list" where
  "node_lines B nodes =
     [S ''## Node Status'']
     @ map (\<lambda>n. S ''  '' @ (if snd n = S ''UP'' then [0x2705] else [0x274C]) @ S '' '' @ format_json B (fst n)
                 @ S '': '' @ snd n) nodes
     @ [[]]"

definition usage_lines :: "builtins \<Rightarrow> (pystr \<times> (json \<times> pyfloat) list) list \<Rightarrow> pystr list" where
  "usage_lines B usage =
     [S ''## Resource Usage'']
     @ concat (map (\<lambda>md.
         [S ''### '' @ upper (fst md)]
         @ map (\<lambda>item.
             S ''  '' @ (if float_lt (snd item) 70 then [0x1F7E2]
                         else if float_lt (snd item) 85 then [0x1F7E1] else [0x1F534])
               @ S '' '' @ format_json B (fst item) @ S '': '' @ fmt_1f B (snd item) @ S ''%'') (snd md)
         @ [[]]) usage)"

text \<open>\<open>pods.get(k, 0)\<close>\<close>

definition pods_get :: "(pystr \<times> int) list \<Rightarrow> pystr \<Rightarrow> int" where
  "pods_get pods k = (case map_of pods k of None \<Rightarrow> 0 | Some n \<Rightarrow> n)"

definition pod_lines :: "(pystr \<times> int) list \<Rightarrow> pystr list" where
  "pod_lines pods =
     (let total = pods_get pods (S ''total'');
          running = pods_get pods (S ''running'');
          pending = pods_get pods (S ''pending'');
          failed = pods_get pods (S ''failed'')
      in [S ''## Pod Status'',
          S ''  Total: '' @ str_int total,
          S ''  Running: '' @ str_int running,
          S ''  Pending: '' @ str_int pending,
          S ''  Failed: '' @ str_int failed,
          []])"

text \<open>
  The line of one alert: the lookup of its severity in the dict of emoji raises on a
  severity that cannot be hashed.
\<close>

definition alert_line :: "builtins \<Rightarrow> alert \<Rightarrow> exn + pystr" where
  "alert_line B a =
     (if \<not> hashable (alert_severity a) then Inl TypeError
      else Inr (S ''  ''
        @ (if alert_severity a = JStr (S ''critical'') then [0x1F534]
           else if alert_severity a = JStr (S ''warning'') then [0x1F7E1]
           else if alert_severity a = JStr (S ''info'') then [0x1F535]
           else [0x26AA])
        @ S '' '' @ format_json B (alert_name a) @ S '': '' @ format_json B (alert_summary a)))"

definition alert_lines :: "builtins \<Rightarrow> alert list \<Rightarrow> exn + pystr list" where
  "alert_lines B alerts =
     sbind (if alerts \<noteq> []
            then for_pure alerts (\<lambda>a ls. sbind (alert_line B a) (\<lambda>l. Inr (ls @ [l]))) []
            else Inr [S ''  '' @ [0x2705] @ S '' No active alerts'']) (\<lambda>ls.
     Inr ([S ''## Active Alerts''] @ ls @ [[]]))"

text \<open>The report built from the facts gathered.\<close>

definition daily_text ::
  "builtins \<Rightarrow> datetime \<Rightarrow> (json \<times> pystr) list \<Rightarrow> (pystr \<times> (json \<times> pyfloat) list) list
     \<Rightarrow> (pystr \<times> int) list \<Rightarrow> alert list \<Rightarrow> exn + pystr" where
  "daily_text B ts nodes usage pods alerts =
     sbind (alert_lines B alerts) (\<lambda>als.
     Inr (join_lines
       (banner_lines B ts @ node_lines B nodes @ usage_lines B usage @ pod_lines pods @ als
        @ [replicate 60 61])))"

definition generate_daily_report :: "builtins \<Rightarrow> network \<Rightarrow> (pystr, reporter) py" where
  "generate_daily_report B net =
     andthen (get_node_status B net) (\<lambda>nodes.
     andthen (get_resource_usage B net) (\<lambda>usage.
     andthen (get_pod_status B net) (\<lambda>pods.
     andthen (get_alerts B net) (\<lambda>alerts.
     andthen (reads r_timestamp) (\<lambda>ts.
     lift (daily_text B ts nodes usage pods alerts))))))"

text \<open>
  \<open>generate_weekly_report\<close>; \<open>now\<close> is the \<open>datetime.now()\<close> it reads when it starts.
\<close>

definition generate_weekly_report :: "builtins \<Rightarrow> network \<Rightarrow> datetime \<Rightarrow> (pystr, reporter) py" where
  "generate_weekly_report B net now =
     (let end_time = now; start_time = end_time - timedelta_days 7 in
      andthen (generate_daily_report B net) (\<lambda>daily.
      ok (join_lines
        [replicate 60 61,
         S ''Kubernetes Cluster Health Report - Weekly'',
         S ''Period: '' @ strftime B start_time (S ''%Y-%m-%d'') @ S '' to '' @ strftime B end_time (S ''%Y-%m-%d''),
         replicate 60 61,
         [],
         daily,
         [],
         S ''## Weekly Summary'',
         S ''  - Average uptime: Check Prometheus for detailed metrics'',
         S ''  - Resource trends: See Grafana dashboards'',
         S ''  - Incident summary: Review alert history'',
         [],
         replicate 60 61])))"

text \<open>
  \<open>send_to_discord\<close>. \<open>discord_content\<close> is the line that sets \<open>content\<close>, and
  \<open>discord_payload\<close> the dict posted.
\<close>

definition discord_content :: "pystr \<Rightarrow> pystr" where
  "discord_content report =
     (if length report < 1990 then report else take 1990 report @ 10 # S ''... (truncated)'')"

definition discord_payload :: "pystr \<Rightarrow> json" where
  "discord_payload report =
     JObj [(S ''content'', JStr (S ''```'' @ 10 # discord_content report @ 10 # S ''```''))]"

definition send_to_discord :: "builtins \<Rightarrow> network \<Rightarrow> pystr \<Rightarrow> pystr \<Rightarrow> (unit, reporter) py" where
  "send_to_discord B net report webhook_url =
     (if webhook_url = [] then
        effect (py_print (S ''Discord webhook not configured, skipping notification''))
      else
        try_except
          (andthen (requests_call net
               \<lparr> verb = POST, url = webhook_url, params = [], payload = Some (discord_payload report),
                 verify = True, timeout = 10 \<rparr>) (\<lambda>response.
           andthen (lift (raise_for_status response)) (\<lambda>_.
           effect (py_print (S ''Report sent to Discord successfully'')))))
          (\<lambda>e. Some (effect (print_stderr (S ''Error sending to Discord: '' @ str_exn B e)))))"

section \<open>Invariants of a run\<close>

text \<open>
  A computation preserves a property of the state whether it returns or raises; a property
  of the manager is stable when printing, recording an issue, recording a warning and
  sending a request keep it.
\<close>

definition preserves :: "('s \<Rightarrow> bool) \<Rightarrow> ('a, 's) py \<Rightarrow> bool" where
  "preserves P m = (\<forall>s. P s \<longrightarrow> P (snd (m s)))"

definition stable :: "(manager \<Rightarrow> bool) \<Rightarrow> bool" where
  "stable P =
     ((\<forall>l s. P s \<longrightarrow> P (py_print l s)) \<and> (\<forall>m s. P s \<longrightarrow> P (add_issue m s))
      \<and> (\<forall>m s. P s \<longrightarrow> P (add_warning m s)) \<and> (\<forall>x s. P s \<longrightarrow> P (s\<lparr>sent := x\<rparr>)))"

definition valid_status :: "manager \<Rightarrow> bool" where
  "valid_status s = (status_of s \<in> {S ''HEALTHY'', S ''WARNING'', S ''UNHEALTHY''})"

section \<open>Sample inputs\<close>

text \<open>
  An instance of the builtins, to run the model on the concrete inputs of the examples.
  On those inputs it is what the interpreter computes: \<open>int\<close> and \<open>float\<close> of a string
  of ASCII digits (of a value below \<open>2^53\<close>), \<open>int\<close> of the string \<open>1.0\<close>, which raises
  ValueError as it does on every string with a point, \<open>{x:.1f}\<close> of a finite float (the
  decimal with one digit nearest to its value, ties to even), \<open>strip\<close> of an ASCII string, and
  \<open>strftime\<close> of the four dates listed, a \<open>datetime\<close> being counted from 1970-01-01
  00:00:00. On other inputs it is not meant to be the interpreter; the examples do not
  use \<open>exc_str\<close>, \<open>timestamp_ns\<close> and \<open>py_str\<close>. The theorems about all inputs take the
  builtins as a parameter and do not depend on this instance.
\<close>

definition is_digits :: "pystr \<Rightarrow> bool" where
  "is_digits s = (s \<noteq> [] \<and> list_all (\<lambda>c. 48 \<le> c \<and> c \<le> 57) s)"

definition digits_value :: "pystr \<Rightarrow> nat" where
  "digits_value s = foldl (\<lambda>a c. 10 * a + (c - 48)) 0 s"

definition round_half_even :: "real \<Rightarrow> int" where
  "round_half_even r =
     (let f = \<lfloor>r\<rfloor>; d = r - of_int f
      in if d < 1 / 2 then f else if 1 / 2 < d then f + 1 else if even f then f else f + 1)"

definition sample_fmt_1f :: "pyfloat \<Rightarrow> pystr" where
  "sample_fmt_1f f =
     (case f of
        Finite x \<Rightarrow>
          (let n = nat (round_half_even (10 * \<bar>x\<bar>))
           in (if x < 0 then [45] else []) @ str_nat (n div 10) @ 46 # str_nat (n mod 10))
      | NegZero \<Rightarrow> S ''-0.0''
      | PosInf \<Rightarrow> S ''inf''
      | NegInf \<Rightarrow> S ''-inf''
      | NaN \<Rightarrow> S ''nan'')"

definition ascii_space :: "nat \<Rightarrow> bool" where
  "ascii_space c = ((9 \<le> c \<and> c \<le> 13) \<or> (28 \<le> c \<and> c \<le> 32))"

definition sample_strip :: "pystr \<Rightarrow> pystr" where
  "sample_strip s = rev (dropWhile ascii_space (rev (dropWhile ascii_space s)))"

definition sample_strftime :: "datetime \<Rightarrow> pystr \<Rightarrow> pystr" where
  "sample_strftime t f =
     (let day = (if t div 86400000000 = 0 then S ''1970-01-01''
                 else if t div 86400000000 = 1 then S ''1970-01-02''
                 else if t div 86400000000 = - 7 then S ''1969-12-25''
                 else if t div 86400000000 = - 6 then S ''1969-12-26''
                 else [])
      in if f = S ''%Y-%m-%d'' then day
         else if f = S ''%Y-%m-%d %H:%M:%S'' \<and> t mod 86400000000 = 0 then day @ S '' 00:00:00''
         else [])"

definition sample_builtins :: builtins where
  "sample_builtins =
     \<lparr> py_int = (\<lambda>j. case j of
                   JStr s \<Rightarrow> if is_digits s then Inr (int (digits_value s)) else Inl ValueError
                 | JInt i \<Rightarrow> Inr i
                 | _ \<Rightarrow> Inl TypeError),
       py_float = (\<lambda>j. case j of
                   JStr s \<Rightarrow> if is_digits s then Inr (Finite (real (digits_value s))) else Inl ValueError
                 | JInt i \<Rightarrow> Inr (Finite (real_of_int i))
                 | JFloat f \<Rightarrow> Inr f
                 | _ \<Rightarrow> Inl TypeError),
       fmt_1f = sample_fmt_1f,
       exc_str = (\<lambda>e. []),
       py_strip = sample_strip,
       strftime = sample_strftime,
       timestamp_ns = (\<lambda>t. t * 1000),
       py_str = (\<lambda>j. case j of JInt i \<Rightarrow> str_int i | JStr s \<Rightarrow> s | _ \<Rightarrow> []) \<rparr>"

text \<open>
  A row \<open>{"metric": {"instance": i}, "value": [t, v]}\<close> of an instant query, the body
  \<open>{"status": "success", "data": {"resultType": "vector", "result": rows}}\<close>, and the
  response with status 200 whose \<open>json()\<close> is a given value.
\<close>

definition vector_row :: "pystr \<Rightarrow> pystr \<Rightarrow> json" where
  "vector_row i v =
     JObj [(S ''metric'', JObj [(S ''instance'', JStr i)]), (S ''value'', JArr [JInt 1700000000, JStr v])]"

definition vector_result :: "json list \<Rightarrow> json" where
  "vector_result rows =
     JObj [(S ''status'', JStr (S ''success'')),
           (S ''data'', JObj [(S ''resultType'', JStr (S ''vector'')), (S ''result'', JArr rows)])]"

definition json_response :: "json \<Rightarrow> response" where
  "json_response j = \<lparr> status_code = 200, body_text = [], body_json = Inr j, error_text = [] \<rparr>"

text \<open>A response with status 500 whose body is not JSON, and a network that always gives it.\<close>

definition server_error :: response where
  "server_error =
     \<lparr> status_code = 500,
       body_text = S ''Internal Server Error'',
       body_json = Inl (RequestException (S ''Expecting value: line 1 column 1 (char 0)'')),
       error_text = S ''500 Server Error: Internal Server Error for url: http://prometheus.home/api/v1/query?query=up'' \<rparr>"

definition failing :: network where
  "failing n req = Returns server_error"

text \<open>A network on which every request fails to connect.\<close>

definition unreachable :: network where
  "unreachable n req = Raises (RequestException (S ''Connection refused''))"

text \<open>
  A network that answers every query with three rows: \<open>kube501.home\<close> and
  \<open>kube502.home\<close> at 1, \<open>kube503.home\<close> at 0; \<open>kube511.home\<close> has no row.
\<close>

definition three_rows :: json where
  "three_rows =
     vector_result
       [vector_row (S ''kube501.home'') (S ''1''), vector_row (S ''kube502.home'') (S ''1''),
        vector_row (S ''kube503.home'') (S ''0'')]"

definition three_nodes :: network where
  "three_nodes n req = Returns (json_response three_rows)"

text \<open>
  A network that answers the queries of the pod counts with 8 running, 1 pending, no row
  for failed and 9 in total, and every other request with no row.
\<close>

definition count_row :: "pystr \<Rightarrow> json" where
  "count_row v = JObj [(S ''metric'', JObj []), (S ''value'', JArr [JInt 1700000000, JStr v])]"

definition pods_network :: network where
  "pods_network n req =
     Returns (json_response
       (if params req = [(S ''query'', JStr (S ''count(kube_pod_status_phase{phase=\"Running\"})''))]
        then vector_result [count_row (S ''8'')]
        else if params req = [(S ''query'', JStr (S ''count(kube_pod_status_phase{phase=\"Pending\"})''))]
        then vector_result [count_row (S ''1'')]
        else if params req = [(S ''query'', JStr (S ''count(kube_pod_info)''))]
        then vector_result [count_row (S ''9'')]
        else vector_result []))"

text \<open>
  A network that answers the CPU query with one row, \<open>kube501.home\<close> at the value
  \<open>v\<close>, and every other query with no row.
\<close>

definition cpu_network :: "pystr \<Rightarrow> network" where
  "cpu_network v n req =
     Returns (json_response
       (if params req = [(S ''query'', JStr cpu_query)]
        then vector_result [vector_row (S ''kube501.home'') v]
        else vector_result []))"

text \<open>
  A network that answers the CPU query with one row whose \<open>metric\<close> has no \<open>instance\<close>
  label, and every other query with the three rows above.
\<close>

definition unlabelled_cpu :: network where
  "unlabelled_cpu n req =
     Returns (json_response
       (if params req = [(S ''query'', JStr cpu_query)]
        then vector_result [count_row (S ''50'')]
        else three_rows))"

text \<open>A network that answers every query with one row, \<open>kube501.home\<close> at \<open>1.0\<close>.\<close>

definition decimal_up :: network where
  "decimal_up n req = Returns (json_response (vector_result [vector_row (S ''kube501.home'') (S ''1.0'')]))"

section \<open>Facts about strings\<close>

lemma S_inject [simp]: "S a = S b \<longleftrightarrow> a = b"
  unfolding S_def by (simp add: inj_map_eq_map inj_def)

lemma S_append: "S (a @ b) = S a @ S b"
  by (simp add: S_def)

lemma S_Nil [simp]: "S [] = []"
  by (simp add: S_def)

lemma length_S [simp]: "length (S a) = length a"
  by (simp add: S_def)

section \<open>The status under the mutation operations\<close>

lemma status_add_issue: "status_of (add_issue m s) = S ''UNHEALTHY''"
  by (simp add: status_of_def add_issue_def py_print_def)

lemma status_add_warning:
  "status_of (add_warning m s) = (if status_of s = S ''HEALTHY'' then S ''WARNING'' else status_of s)"
  by (simp add: status_of_def add_warning_def py_print_def Let_def)

lemma status_add_action: "status_of (add_action m s) = status_of s"
  by (simp add: status_of_def add_action_def py_print_def)

lemma severity_mutate: "severity (status_of s) \<le> severity (status_of (mutate s c))"
  by (cases c) (simp_all add: status_add_issue status_add_warning status_add_action severity_def)

lemma severity_foldl: "severity (status_of s) \<le> severity (status_of (foldl mutate s cs))"
proof (induction cs arbitrary: s)
  case Nil
  show ?case by simp
next
  case (Cons c cs)
  have "severity (status_of s) \<le> severity (status_of (mutate s c))"
    by (rule severity_mutate)
  also have "\<dots> \<le> severity (status_of (foldl mutate (mutate s c) cs))"
    by (rule Cons.IH)
  finally show ?case by simp
qed

lemma unhealthy_mutate:
  "status_of s = S ''UNHEALTHY'' \<Longrightarrow> status_of (mutate s c) = S ''UNHEALTHY''"
  by (cases c) (simp_all add: status_add_issue status_add_warning status_add_action)

lemma unhealthy_foldl:
  "status_of s = S ''UNHEALTHY'' \<Longrightarrow> status_of (foldl mutate s cs) = S ''UNHEALTHY''"
  by (induction cs arbitrary: s) (simp_all add: unhealthy_mutate)

section \<open>Computations\<close>

lemma andthen_ok [simp]: "andthen (ok x) f = f x"
  by (rule ext) (simp add: andthen_def ok_def)

lemma andthen_effect [simp]: "andthen (effect g) f s = f () (g s)"
  by (simp add: andthen_def effect_def)

lemma andthen_reads [simp]: "andthen (reads g) f s = f (g s) s"
  by (simp add: andthen_def reads_def)

lemma andthen_lift_Inr [simp]: "andthen (lift (Inr x)) f = f x"
  by (rule ext) (simp add: andthen_def lift_def)

lemma andthen_lift_Inl [simp]: "andthen (lift (Inl e)) f s = (Inl e, s)"
  by (simp add: andthen_def lift_def)

lemma preserves_ok: "preserves P (ok x)"
  by (simp add: preserves_def ok_def)

lemma preserves_lift: "preserves P (lift r)"
  by (simp add: preserves_def lift_def)

lemma preserves_reads: "preserves P (reads f)"
  by (simp add: preserves_def reads_def)

lemma preserves_andthen:
  "preserves P m \<Longrightarrow> (\<And>x. preserves P (f x)) \<Longrightarrow> preserves P (andthen m f)"
  unfolding preserves_def andthen_def
  by (auto split: prod.splits sum.splits)

lemma preserves_try_except:
  "preserves P m \<Longrightarrow> (\<And>e k. h e = Some k \<Longrightarrow> preserves P k) \<Longrightarrow> preserves P (try_except m h)"
  unfolding preserves_def try_except_def
  by (auto split: prod.splits sum.splits option.splits)

lemma preserves_for_loop:
  "(\<And>x a. preserves P (body x a)) \<Longrightarrow> preserves P (for_loop xs body acc)"
proof (induction xs arbitrary: acc)
  case Nil
  show ?case by (simp add: preserves_def)
next
  case (Cons x xs)
  have b: "preserves P (body x acc)" by (rule Cons.prems)
  have r: "\<And>a. preserves P (for_loop xs body a)" by (rule Cons.IH) (rule Cons.prems)
  show ?case
    unfolding preserves_def
  proof (intro allI impI)
    fix s assume "P s"
    then have p1: "P (snd (body x acc s))" using b by (simp add: preserves_def)
    show "P (snd (for_loop (x # xs) body acc s))"
    proof (cases "body x acc s")
      case (Pair res s')
      then show ?thesis using p1 r by (cases res) (auto simp: preserves_def)
    qed
  qed
qed

lemma preserves_if: "preserves P a \<Longrightarrow> preserves P b \<Longrightarrow> preserves P (if c then a else b)"
  by simp

lemma stable_print: "stable P \<Longrightarrow> preserves P (effect (py_print l))"
  by (simp add: stable_def preserves_def effect_def)

lemma stable_issue: "stable P \<Longrightarrow> preserves P (effect (add_issue m))"
  by (simp add: stable_def preserves_def effect_def)

lemma stable_warning: "stable P \<Longrightarrow> preserves P (effect (add_warning m))"
  by (simp add: stable_def preserves_def effect_def)

lemma stable_requests: "stable P \<Longrightarrow> preserves P (requests_call net req)"
  by (simp add: stable_def preserves_def requests_call_def split: http_result.splits)

lemmas preserves_intros =
  preserves_ok preserves_lift preserves_reads preserves_andthen preserves_try_except
  preserves_for_loop preserves_if stable_print stable_issue stable_warning stable_requests

lemma request_handler:
  "(case e of RequestException m \<Rightarrow> Some (f m) | _ \<Rightarrow> None) = Some k \<Longrightarrow> \<exists>m. e = RequestException m \<and> k = f m"
  by (cases e) auto

lemma preserves_hm_query_prometheus:
  "stable P \<Longrightarrow> preserves P (hm_query_prometheus net query)"
  unfolding hm_query_prometheus_def
  by (intro preserves_intros | assumption | drule request_handler | clarify)+

lemma preserves_cpu_step: "stable P \<Longrightarrow> preserves P (cpu_step B metric u)"
  unfolding cpu_step_def
  by (intro preserves_intros conjI impI allI | assumption | simp split: json.splits)+

lemma preserves_memory_step: "stable P \<Longrightarrow> preserves P (memory_step B metric u)"
  unfolding memory_step_def
  by (intro preserves_intros conjI impI allI | assumption | simp split: json.splits)+

lemma preserves_check_node_resources: "stable P \<Longrightarrow> preserves P (check_node_resources B net)"
  unfolding check_node_resources_def
  by (intro preserves_intros preserves_hm_query_prometheus preserves_cpu_step preserves_memory_step | assumption)+

lemma preserves_node_check: "stable P \<Longrightarrow> preserves P (node_check ns node a)"
  unfolding node_check_def
  by (intro preserves_intros conjI impI allI | assumption | simp split: option.splits)+

lemma preserves_cadvisor_check: "stable P \<Longrightarrow> preserves P (cadvisor_check ns node a)"
  unfolding cadvisor_check_def
  by (intro preserves_intros conjI impI allI | assumption | simp split: option.splits)+

lemma preserves_check_node_health: "stable P \<Longrightarrow> preserves P (check_node_health B net)"
  unfolding check_node_health_def
  by (intro preserves_intros preserves_hm_query_prometheus preserves_node_check
        preserves_check_node_resources | assumption)+

lemma preserves_check_kubernetes_api: "stable P \<Longrightarrow> preserves P (check_kubernetes_api B net)"
  unfolding check_kubernetes_api_def
  by (intro preserves_intros | assumption | drule request_handler | clarify)+

lemma preserves_check_container_metrics: "stable P \<Longrightarrow> preserves P (check_container_metrics B net)"
  unfolding check_container_metrics_def
  by (intro preserves_intros preserves_hm_query_prometheus preserves_cadvisor_check | assumption)+

lemma preserves_logs_step: "stable P \<Longrightarrow> preserves P (logs_step B net now pattern u)"
  unfolding logs_step_def
  by (intro preserves_intros | assumption | drule request_handler | clarify)+

lemma preserves_check_critical_logs: "stable P \<Longrightarrow> preserves P (check_critical_logs B net now)"
  unfolding check_critical_logs_def
  by (intro preserves_intros preserves_logs_step | assumption)+

lemma preserves_print_list: "stable P \<Longrightarrow> preserves P (print_list title entries)"
  unfolding print_list_def
  by (intro preserves_intros | assumption)+

lemma preserves_run_health_check: "stable P \<Longrightarrow> preserves P (run_health_check B net now)"
  unfolding run_health_check_def
  by (intro preserves_intros preserves_check_node_health preserves_check_kubernetes_api
        preserves_check_container_metrics preserves_check_critical_logs preserves_print_list
      | assumption)+

lemma andthen_InrE:
  assumes "andthen m f s = (Inr r, s')"
  obtains x s1 where "m s = (Inr x, s1)" and "f x s1 = (Inr r, s')"
  using assms by (auto simp: andthen_def split: prod.splits sum.splits)

lemma status_print [simp]: "status_of (py_print l s) = status_of s"
  by (simp add: status_of_def py_print_def)

lemma status_sent [simp]: "status_of (s\<lparr>sent := x\<rparr>) = status_of s"
  by (simp add: status_of_def)

lemma stable_severity: "stable (\<lambda>s. severity st \<le> severity (status_of s))"
  by (simp add: stable_def status_add_issue status_add_warning) (simp add: severity_def)

lemma stable_unhealthy: "stable (\<lambda>s. status_of s = S ''UNHEALTHY'')"
  by (simp add: stable_def status_add_issue status_add_warning)

lemma stable_valid_status: "stable valid_status"
  by (simp add: stable_def valid_status_def status_add_issue status_add_warning)

lemma run_returns_report:
  "run_health_check B net now s = (Inr r, s') \<Longrightarrow> r = health_report s'"
  unfolding run_health_check_def
  by (elim andthen_InrE) (auto simp: reads_def)

lemma valid_status_main:
  "run_health_check B net now (K8sHealthManager now_iso) = (res, s') \<Longrightarrow> valid_status s'"
proof -
  assume a: "run_health_check B net now (K8sHealthManager now_iso) = (res, s')"
  have "valid_status (K8sHealthManager now_iso)"
    by (simp add: valid_status_def status_of_def K8sHealthManager_def)
  then have "valid_status (snd (run_health_check B net now (K8sHealthManager now_iso)))"
    using preserves_run_health_check [OF stable_valid_status, of B net now]
    by (simp add: preserves_def)
  then show ?thesis using a by simp
qed

lemma try_except_apply:
  "try_except m h s =
     (case m s of
        (Inl e, s') \<Rightarrow> (case h e of None \<Rightarrow> (Inl e, s') | Some k \<Rightarrow> k s')
      | (Inr x, s') \<Rightarrow> (Inr x, s'))"
  by (simp add: try_except_def)

lemma main_unreachable: "fst (main B unreachable now_iso now) = Exit 1"
  by (simp add: main_def run_health_check_def check_node_health_def check_kubernetes_api_def
      check_container_metrics_def check_critical_logs_def logs_step_def critical_patterns_def
      hm_query_prometheus_def try_except_apply requests_call_def unreachable_def
      andthen_def ok_def effect_def reads_def print_list_def K8sHealthManager_def
      add_issue_def py_print_def exit_code_def truthy.simps)

section \<open>The checks of the health manager\<close>

lemma sent_print [simp]: "sent (py_print l s) = sent s"
  by (simp add: py_print_def)

lemma report_print [simp]: "health_report (py_print l s) = health_report s"
  by (simp add: py_print_def)

lemma issues_add_issue [simp]:
  "issues (health_report (add_issue m s)) = issues (health_report s) @ [m]"
  by (simp add: add_issue_def py_print_def)

lemma warnings_add_issue [simp]:
  "warnings (health_report (add_issue m s)) = warnings (health_report s)"
  by (simp add: add_issue_def py_print_def)

lemma issues_add_warning [simp]:
  "issues (health_report (add_warning m s)) = issues (health_report s)"
  by (simp add: add_warning_def py_print_def Let_def)

lemma warnings_add_warning [simp]:
  "warnings (health_report (add_warning m s)) = warnings (health_report s) @ [m]"
  by (simp add: add_warning_def py_print_def Let_def)

lemma sent_add_issue [simp]: "sent (add_issue m s) = sent s"
  by (simp add: add_issue_def py_print_def)

lemma sent_add_warning [simp]: "sent (add_warning m s) = sent s"
  by (simp add: add_warning_def py_print_def Let_def)

lemma urls_print [simp]:
  "k8s_api_url (py_print l s) = k8s_api_url s"
  "prometheus_url (py_print l s) = prometheus_url s"
  "loki_url (py_print l s) = loki_url s"
  by (simp_all add: py_print_def)

lemma nodes_print [simp]: "cluster_nodes (py_print l s) = cluster_nodes s"
  by (simp add: py_print_def)

lemma nodes_add_issue [simp]: "cluster_nodes (add_issue m s) = cluster_nodes s"
  by (simp add: add_issue_def py_print_def)

lemma nodes_add_warning [simp]: "cluster_nodes (add_warning m s) = cluster_nodes s"
  by (simp add: add_warning_def py_print_def Let_def)

lemmas run_defs =
  andthen_def ok_def lift_def effect_def reads_def try_except_apply requests_call_def sbind_def

lemma sample_float_digits:
  "py_float sample_builtins (JStr (S ''90'')) = Inr (Finite 90)"
  "py_float sample_builtins (JStr (S ''91'')) = Inr (Finite 91)"
  by (simp_all add: sample_builtins_def is_digits_def digits_value_def S_def)

lemma sample_fmt:
  "fmt_1f sample_builtins (Finite 90) = S ''90.0''"
  "fmt_1f sample_builtins (Finite 91) = S ''91.0''"
  by (simp_all add: sample_builtins_def sample_fmt_1f_def round_half_even_def str_nat.simps S_def Let_def)

lemma vector_row_fields:
  "row_instance (vector_row i v) = Inr (JStr i)"
  "row_value (vector_row i v) = Inr (JStr v)"
  by (simp_all add: row_instance_def row_value_def vector_row_def sbind_def)

lemma vector_result_rows: "result_rows (vector_result rows) = Inr rows"
  by (simp add: result_rows_def vector_result_def sbind_def)

lemma truthy_vector_result: "truthy (vector_result rows)"
  by (simp add: vector_result_def)

lemma cpu_query_neq: "cpu_query \<noteq> memory_query" "memory_query \<noteq> cpu_query"
  by (simp_all add: cpu_query_def memory_query_def)

lemma hm_query_json:
  "net (length (sent s)) (prometheus_request (prometheus_url s) q 10) = Returns (json_response j)
   \<Longrightarrow> hm_query_prometheus net q s =
       (Inr j, s\<lparr>sent := sent s @ [prometheus_request (prometheus_url s) q 10]\<rparr>)"
  by (simp add: hm_query_prometheus_def run_defs json_response_def)

lemma hm_query_cpu_network:
  "hm_query_prometheus (cpu_network v) q s =
     (Inr (if q = cpu_query then vector_result [vector_row (S ''kube501.home'') v] else vector_result []),
      s\<lparr>sent := sent s @ [prometheus_request (prometheus_url s) q 10]\<rparr>)"
  by (simp add: hm_query_prometheus_def run_defs json_response_def cpu_network_def
      prometheus_request_def)

lemma manager_nodes:
  "cluster_nodes (K8sHealthManager t) =
     [S ''kube501.home'', S ''kube502.home'', S ''kube503.home'', S ''kube511.home'']"
  by (simp add: K8sHealthManager_def)

lemma manager_report:
  "health_report (K8sHealthManager t) =
     \<lparr> timestamp = t, overall_status = S ''HEALTHY'', issues = [], warnings = [], actions_taken = [] \<rparr>"
  by (simp add: K8sHealthManager_def)

lemma stdout_add_issue [simp]:
  "stdout (add_issue m s) = stdout s @ [S ''  '' @ [0x274C] @ S '' ISSUE: '' @ m]"
  by (simp add: add_issue_def py_print_def)

lemma stderr_add_issue [simp]: "stderr (add_issue m s) = stderr s"
  by (simp add: add_issue_def py_print_def)

lemma stderr_print_stderr [simp]: "stderr (print_stderr l s) = stderr s @ [l]"
  by (simp add: print_stderr_def)

lemma sent_print_stderr [simp]: "sent (print_stderr l s) = sent s"
  by (simp add: print_stderr_def)

lemma status_step_result:
  assumes "row_instance metric = Inr (JStr name)" and "sbind (row_value metric) (py_int B) = Inr k"
  shows "status_step B metric m = Inr (m(name \<mapsto> (k = 1)))"
  using assms by (simp add: status_step_def sbind_def)

lemma status_step_absent:
  assumes "status_step B metric m = Inr m'" and "row_instance metric \<noteq> Inr (JStr node)"
  shows "m' node = m node"
  using assms
  by (auto simp: status_step_def sbind_def split: sum.splits if_splits json.splits)

lemma for_pure_absent:
  "for_pure rows (status_step B) m = Inr m' \<Longrightarrow>
   list_all (\<lambda>row. row_instance row \<noteq> Inr (JStr node)) rows \<Longrightarrow> m' node = m node"
proof (induction rows arbitrary: m)
  case Nil
  then show ?case by simp
next
  case (Cons row rows)
  from Cons.prems(1) obtain m1 where s: "status_step B row m = Inr m1"
    and r: "for_pure rows (status_step B) m1 = Inr m'"
    by (auto split: sum.splits)
  have "m1 node = m node" using s Cons.prems(2) by (auto dest: status_step_absent)
  moreover have "m' node = m1 node" using r Cons.prems(2) by (auto intro: Cons.IH)
  ultimately show ?case by simp
qed

lemma result_rows_truthy: "result_rows result = Inr rows \<Longrightarrow> truthy result"
  by (cases result) (auto simp: result_rows_def sbind_def split: option.splits)

lemma status_dict_absent:
  assumes "status_dict B result = Inr ns" and "result_rows result = Inr rows"
    and "list_all (\<lambda>row. row_instance row \<noteq> Inr (JStr node)) rows"
  shows "ns node = None"
  using assms for_pure_absent [of rows B Map.empty ns node]
  by (simp add: status_dict_def sbind_def)

lemma node_check_step:
  "node_check ns n b s =
     (Inr (b \<and> ns n = Some True),
      case ns n of
        None \<Rightarrow> add_warning (S ''No metrics found for '' @ n)
                 (py_print (S ''  '' @ [0x26A0, 0xFE0F] @ S ''  '' @ n @ S '' - NO METRICS'') s)
      | Some up \<Rightarrow>
          if up then py_print (S ''  '' @ [0x2705] @ S '' '' @ n @ S '' - UP'') s
          else add_issue (S ''Node exporter down on '' @ n)
                 (py_print (S ''  '' @ [0x274C] @ S '' '' @ n @ S '' - DOWN'') s))"
  by (auto simp: node_check_def run_defs split: option.splits)

lemma cadvisor_check_step:
  "cadvisor_check ns n b s =
     (Inr (b \<and> ns n = Some True),
      case ns n of
        None \<Rightarrow> add_warning (S ''cAdvisor not reporting from '' @ n)
                 (py_print (S ''  '' @ [0x26A0, 0xFE0F] @ S ''  '' @ n @ S '' cAdvisor - NO METRICS'') s)
      | Some up \<Rightarrow>
          if up then py_print (S ''  '' @ [0x2705] @ S '' '' @ n @ S '' cAdvisor - UP'') s
          else add_issue (S ''cAdvisor down on '' @ n)
                 (py_print (S ''  '' @ [0x274C] @ S '' '' @ n @ S '' cAdvisor - DOWN'') s))"
  by (auto simp: cadvisor_check_def run_defs split: option.splits)

lemma node_check_facts:
  "fst (node_check ns n b s) = Inr (b \<and> ns n = Some True)
   \<and> issues (health_report (snd (node_check ns n b s))) =
       issues (health_report s) @ (if ns n = Some False then [S ''Node exporter down on '' @ n] else [])
   \<and> warnings (health_report (snd (node_check ns n b s))) =
       warnings (health_report s) @ (if ns n = None then [S ''No metrics found for '' @ n] else [])"
  by (cases "ns n") (auto simp: node_check_step)

lemma cadvisor_check_facts:
  "fst (cadvisor_check ns n b s) = Inr (b \<and> ns n = Some True)
   \<and> issues (health_report (snd (cadvisor_check ns n b s))) =
       issues (health_report s) @ (if ns n = Some False then [S ''cAdvisor down on '' @ n] else [])
   \<and> warnings (health_report (snd (cadvisor_check ns n b s))) =
       warnings (health_report s) @ (if ns n = None then [S ''cAdvisor not reporting from '' @ n] else [])"
  by (cases "ns n") (auto simp: cadvisor_check_step)

lemma for_loop_Cons_Inr:
  "fst (body x acc s) = Inr acc' \<Longrightarrow>
   for_loop (x # xs) body acc s = for_loop xs body acc' (snd (body x acc s))"
  by (cases "body x acc s") simp

lemma node_loop:
  "fst (for_loop nodes (node_check ns) b s) = Inr (b \<and> list_all (\<lambda>n. ns n = Some True) nodes)
   \<and> issues (health_report (snd (for_loop nodes (node_check ns) b s))) =
       issues (health_report s)
       @ map (\<lambda>n. S ''Node exporter down on '' @ n) (filter (\<lambda>n. ns n = Some False) nodes)
   \<and> warnings (health_report (snd (for_loop nodes (node_check ns) b s))) =
       warnings (health_report s)
       @ map (\<lambda>n. S ''No metrics found for '' @ n) (filter (\<lambda>n. ns n = None) nodes)"
proof (induction nodes arbitrary: b s)
  case Nil
  show ?case by simp
next
  case (Cons n nodes)
  note f = node_check_facts [of ns n b s]
  have "for_loop (n # nodes) (node_check ns) b s =
        for_loop nodes (node_check ns) (b \<and> ns n = Some True) (snd (node_check ns n b s))"
    using f by (intro for_loop_Cons_Inr) simp
  then show ?case
    using f Cons.IH [of "b \<and> ns n = Some True" "snd (node_check ns n b s)"] by auto
qed

lemma cadvisor_loop:
  "fst (for_loop nodes (cadvisor_check ns) b s) = Inr (b \<and> list_all (\<lambda>n. ns n = Some True) nodes)
   \<and> issues (health_report (snd (for_loop nodes (cadvisor_check ns) b s))) =
       issues (health_report s)
       @ map (\<lambda>n. S ''cAdvisor down on '' @ n) (filter (\<lambda>n. ns n = Some False) nodes)
   \<and> warnings (health_report (snd (for_loop nodes (cadvisor_check ns) b s))) =
       warnings (health_report s)
       @ map (\<lambda>n. S ''cAdvisor not reporting from '' @ n) (filter (\<lambda>n. ns n = None) nodes)"
proof (induction nodes arbitrary: b s)
  case Nil
  show ?case by simp
next
  case (Cons n nodes)
  note f = cadvisor_check_facts [of ns n b s]
  have "for_loop (n # nodes) (cadvisor_check ns) b s =
        for_loop nodes (cadvisor_check ns) (b \<and> ns n = Some True) (snd (cadvisor_check ns n b s))"
    using f by (intro for_loop_Cons_Inr) simp
  then show ?case
    using f Cons.IH [of "b \<and> ns n = Some True" "snd (cadvisor_check ns n b s)"] by auto
qed

lemma hm_query_ok:
  assumes "net (length (sent s)) (prometheus_request (prometheus_url s) q 10) = Returns a"
    and "status_code a = 200" and "body_json a = Inr result"
  shows "hm_query_prometheus net q s =
     (Inr result, s\<lparr>sent := sent s @ [prometheus_request (prometheus_url s) q 10]\<rparr>)"
  using assms by (simp add: hm_query_prometheus_def run_defs)

lemma stable_has_warning: "stable (\<lambda>s. w \<in> set (warnings (health_report s)))"
  by (simp add: stable_def)

lemma status_node_check:
  "status_of (snd (node_check ns n b s)) =
     (case ns n of
        None \<Rightarrow> if status_of s = S ''HEALTHY'' then S ''WARNING'' else status_of s
      | Some up \<Rightarrow> if up then status_of s else S ''UNHEALTHY'')"
  by (cases "ns n") (auto simp: node_check_step status_add_issue status_add_warning)

lemma status_cadvisor_check:
  "status_of (snd (cadvisor_check ns n b s)) =
     (case ns n of
        None \<Rightarrow> if status_of s = S ''HEALTHY'' then S ''WARNING'' else status_of s
      | Some up \<Rightarrow> if up then status_of s else S ''UNHEALTHY'')"
  by (cases "ns n") (auto simp: cadvisor_check_step status_add_issue status_add_warning)

lemma node_loop_status:
  "list_all (\<lambda>n. ns n \<noteq> Some False) nodes \<Longrightarrow> status_of s \<noteq> S ''UNHEALTHY'' \<Longrightarrow>
   status_of (snd (for_loop nodes (node_check ns) b s)) \<noteq> S ''UNHEALTHY''"
proof (induction nodes arbitrary: b s)
  case Nil
  then show ?case by simp
next
  case (Cons n nodes)
  have e: "for_loop (n # nodes) (node_check ns) b s =
        for_loop nodes (node_check ns) (b \<and> ns n = Some True) (snd (node_check ns n b s))"
    using node_check_facts [of ns n b s] by (intro for_loop_Cons_Inr) simp
  have "status_of (snd (node_check ns n b s)) \<noteq> S ''UNHEALTHY''"
    using Cons.prems by (cases "ns n") (auto simp: status_node_check)
  then show ?case using Cons.prems Cons.IH e by simp
qed

lemma cadvisor_loop_status:
  "list_all (\<lambda>n. ns n \<noteq> Some False) nodes \<Longrightarrow> status_of s \<noteq> S ''UNHEALTHY'' \<Longrightarrow>
   status_of (snd (for_loop nodes (cadvisor_check ns) b s)) \<noteq> S ''UNHEALTHY''"
proof (induction nodes arbitrary: b s)
  case Nil
  then show ?case by simp
next
  case (Cons n nodes)
  have e: "for_loop (n # nodes) (cadvisor_check ns) b s =
        for_loop nodes (cadvisor_check ns) (b \<and> ns n = Some True) (snd (cadvisor_check ns n b s))"
    using cadvisor_check_facts [of ns n b s] by (intro for_loop_Cons_Inr) simp
  have "status_of (snd (cadvisor_check ns n b s)) \<noteq> S ''UNHEALTHY''"
    using Cons.prems by (cases "ns n") (auto simp: status_cadvisor_check)
  then show ?case using Cons.prems Cons.IH e by simp
qed

lemma absent_not_all_up:
  "node \<in> set nodes \<Longrightarrow> ns node = None \<Longrightarrow> \<not> list_all (\<lambda>n. ns n = Some True) nodes"
  by (auto simp: list_all_iff intro!: bexI [of _ node])

lemma absent_warned:
  "node \<in> set nodes \<Longrightarrow> ns node = None \<Longrightarrow>
   f node \<in> set (ws @ map f (filter (\<lambda>n. ns n = None) nodes))"
  by auto

lemma check_container_metrics_run:
  assumes "net (length (sent s)) (prometheus_request (prometheus_url s) (S ''up{job='cadvisor'}'') 10) = Returns a"
    and "status_code a = 200" and "body_json a = Inr result" and "truthy result"
    and "status_dict B result = Inr ns"
  shows "check_container_metrics B net s =
     for_loop (cluster_nodes s) (cadvisor_check ns) True
       (py_print ([0x1F433] @ S '' Checking Container Metrics...'') s
          \<lparr>sent := sent s @ [prometheus_request (prometheus_url s) (S ''up{job='cadvisor'}'') 10]\<rparr>)"
  unfolding check_container_metrics_def
  by (simp add: andthen_def effect_def lift_def reads_def hm_query_ok [OF _ assms(2,3)] assms(1,4,5))

lemma check_node_health_run:
  assumes "net (length (sent s)) (prometheus_request (prometheus_url s) (S ''up{job='node_exporter'}'') 10) = Returns a"
    and "status_code a = 200" and "body_json a = Inr result" and "truthy result"
    and "status_dict B result = Inr ns"
  shows "check_node_health B net s =
     andthen (for_loop (cluster_nodes s) (node_check ns) True) (\<lambda>all_healthy.
       andthen (check_node_resources B net) (\<lambda>_. ok all_healthy))
       (py_print ([0x1F5A5, 0xFE0F] @ S ''  Checking Node Health...'') s
          \<lparr>sent := sent s @ [prometheus_request (prometheus_url s) (S ''up{job='node_exporter'}'') 10]\<rparr>)"
  unfolding check_node_health_def
  by (simp add: andthen_def [of "effect f" for f] andthen_def [of "hm_query_prometheus n q" for n q]
      effect_def hm_query_ok [OF _ assms(2,3)] assms(1,4,5))

lemma andthen_after_Inr:
  "fst (m s) = Inr x \<Longrightarrow> andthen m f s = f x (snd (m s))"
  by (cases "m s") (simp add: andthen_def)

lemma andthen_const_state:
  "snd (andthen m (\<lambda>_. ok x) s) = snd (m s)"
  by (cases "m s") (auto simp: andthen_def ok_def split: sum.splits)

lemma sample_int_digits:
  "py_int sample_builtins (JStr (S ''1'')) = Inr 1"
  "py_int sample_builtins (JStr (S ''0'')) = Inr 0"
  by (simp_all add: sample_builtins_def is_digits_def digits_value_def S_def)

lemma three_rows_dict:
  "status_dict sample_builtins three_rows =
     Inr [S ''kube501.home'' \<mapsto> True, S ''kube502.home'' \<mapsto> True, S ''kube503.home'' \<mapsto> False]"
  by (simp add: status_dict_def three_rows_def vector_result_rows sbind_def status_step_def
      vector_row_fields sample_int_digits)

lemma hm_query_three_nodes:
  "hm_query_prometheus three_nodes q s =
     (Inr three_rows, s\<lparr>sent := sent s @ [prometheus_request (prometheus_url s) q 10]\<rparr>)"
  by (simp add: hm_query_prometheus_def run_defs json_response_def three_nodes_def)

lemma sample_float_bits:
  "py_float sample_builtins (JStr (S ''1'')) = Inr (Finite 1)"
  "py_float sample_builtins (JStr (S ''0'')) = Inr (Finite 0)"
  by (simp_all add: sample_builtins_def is_digits_def digits_value_def S_def)

lemma three_rows_rows:
  "result_rows three_rows =
     Inr [vector_row (S ''kube501.home'') (S ''1''), vector_row (S ''kube502.home'') (S ''1''),
          vector_row (S ''kube503.home'') (S ''0'')]"
  by (simp add: three_rows_def vector_result_rows)

lemma check_node_resources_three_nodes:
  "fst (check_node_resources sample_builtins three_nodes s) = Inr ()"
  by (simp add: check_node_resources_def hm_query_three_nodes three_rows_rows
      three_rows_def [THEN arg_cong, of truthy] truthy_vector_result
      cpu_step_def memory_step_def vector_row_fields sample_float_bits run_defs)

lemma andthen_const_fst:
  "fst (andthen m (\<lambda>_. ok x) s) = (case fst (m s) of Inl e \<Rightarrow> Inl e | Inr u \<Rightarrow> Inr x)"
  by (cases "m s") (auto simp: andthen_def ok_def split: sum.splits)

lemma check_node_health_resources:
  assumes "net (length (sent s)) (prometheus_request (prometheus_url s) (S ''up{job='node_exporter'}'') 10) = Returns a"
    and "status_code a = 200" and "body_json a = Inr result" and "truthy result"
    and "status_dict B result = Inr ns"
  shows "check_node_health B net s =
     andthen (check_node_resources B net) (\<lambda>_. ok (list_all (\<lambda>n. ns n = Some True) (cluster_nodes s)))
       (snd (for_loop (cluster_nodes s) (node_check ns) True
          (py_print ([0x1F5A5, 0xFE0F] @ S ''  Checking Node Health...'') s
             \<lparr>sent := sent s @ [prometheus_request (prometheus_url s) (S ''up{job='node_exporter'}'') 10]\<rparr>)))"
proof -
  let ?s1 = "py_print ([0x1F5A5, 0xFE0F] @ S ''  Checking Node Health...'') s
          \<lparr>sent := sent s @ [prometheus_request (prometheus_url s) (S ''up{job='node_exporter'}'') 10]\<rparr>"
  let ?loop = "for_loop (cluster_nodes s) (node_check ns) True"
  have l: "fst (?loop ?s1) = Inr (list_all (\<lambda>n. ns n = Some True) (cluster_nodes s))"
    using node_loop [of "cluster_nodes s" ns True ?s1] by simp
  show ?thesis
    using check_node_health_run [where net = net and s = s, OF assms]
      andthen_after_Inr [where m = "?loop" and s = "?s1"
        and x = "list_all (\<lambda>n. ns n = Some True) (cluster_nodes s)"
        and f = "\<lambda>all_healthy. andthen (check_node_resources B net) (\<lambda>_. ok all_healthy)", OF l]
    by simp
qed

lemma check_raises:
  assumes "status_code a = 200" and "body_json a = Inr result" and "truthy result"
    and "status_dict B result = Inl e"
  shows "net (length (sent s)) (prometheus_request (prometheus_url s) (S ''up{job='node_exporter'}'') 10) = Returns a
         \<Longrightarrow> fst (check_node_health B net s) = Inl e"
    and "net (length (sent s)) (prometheus_request (prometheus_url s) (S ''up{job='cadvisor'}'') 10) = Returns a
         \<Longrightarrow> fst (check_container_metrics B net s) = Inl e"
  unfolding check_node_health_def check_container_metrics_def
  by (simp_all add: andthen_def [of "effect f" for f] andthen_def [of "hm_query_prometheus n q" for n q]
      andthen_def [of "lift f" for f] lift_def
      effect_def hm_query_ok [OF _ assms(1,2)] assms(3,4))

lemma for_pure_status_rows:
  "list_all2 (\<lambda>row e. row_instance row = Inr (JStr (fst e)) \<and> sbind (row_value row) (py_int B) = Inr (snd e)) rows ks
   \<Longrightarrow> for_pure rows (status_step B) m = Inr (m ++ map_of (rev (map (\<lambda>e. (fst e, snd e = 1)) ks)))"
proof (induction rows ks arbitrary: m rule: list_all2_induct)
  case Nil
  show ?case by simp
next
  case (Cons row rows e ks)
  let ?m1 = "m(fst e \<mapsto> (snd e = 1))"
  let ?M = "map_of (rev (map (\<lambda>e. (fst e, snd e = 1)) ks))"
  have "status_step B row m = Inr ?m1"
    using Cons.hyps(1) by (intro status_step_result) simp_all
  then have "for_pure (row # rows) (status_step B) m = for_pure rows (status_step B) ?m1"
    by simp
  also have "\<dots> = Inr (?m1 ++ ?M)"
    by (rule Cons.IH)
  also have "?m1 ++ ?M = m ++ map_of (rev (map (\<lambda>e. (fst e, snd e = 1)) (e # ks)))"
    by (rule ext) (simp add: map_add_def split: option.splits)
  finally show ?case .
qed

lemma for_pure_append:
  "for_pure xs body acc = Inr acc' \<Longrightarrow> for_pure (xs @ ys) body acc = for_pure ys body acc'"
  by (induction xs arbitrary: acc) (auto split: sum.splits)

lemma status_step_raises:
  "row_instance row = Inr i \<Longrightarrow> sbind (row_value row) (py_int B) = Inl e \<Longrightarrow> status_step B row m = Inl e"
  by (simp add: status_step_def sbind_def)

lemma up_map_distinct:
  "distinct (map fst ks) \<Longrightarrow> (n, k) \<in> set ks \<Longrightarrow>
   map_of (rev (map (\<lambda>e. (fst e, snd e = 1)) ks)) n = Some (k = (1::int))"
proof -
  assume d: "distinct (map fst ks)" and m: "(n, k) \<in> set ks"
  have "distinct (map fst (rev (map (\<lambda>e. (fst e, snd e = 1)) ks)))"
    using d by (simp add: rev_map [symmetric] comp_def)
  moreover have "(n, k = 1) \<in> set (rev (map (\<lambda>e. (fst e, snd e = 1)) ks))"
    using m by force
  ultimately show ?thesis by (rule map_of_is_SomeI)
qed

lemma status_dict_rows:
  assumes "result_rows result = Inr rows"
    and "list_all2 (\<lambda>row e. row_instance row = Inr (JStr (fst e)) \<and> sbind (row_value row) (py_int B) = Inr (snd e)) rows ks"
  shows "status_dict B result = Inr (map_of (rev (map (\<lambda>e. (fst e, snd e = 1)) ks)))"
  using for_pure_status_rows [OF assms(2), of Map.empty] assms(1)
  by (simp add: status_dict_def sbind_def)

lemma status_dict_raises:
  assumes "result_rows result = Inr (rows @ row # post)"
    and "list_all2 (\<lambda>row e. row_instance row = Inr (JStr (fst e)) \<and> sbind (row_value row) (py_int B) = Inr (snd e)) rows ks"
    and "row_instance row = Inr i" and "sbind (row_value row) (py_int B) = Inl e"
  shows "status_dict B result = Inl e"
  using for_pure_append [OF for_pure_status_rows [OF assms(2), of Map.empty], of "row # post"]
    status_step_raises [OF assms(3,4)] assms(1)
  by (simp add: status_dict_def sbind_def)

lemma hm_query_unlabelled_cpu:
  "hm_query_prometheus unlabelled_cpu q s =
     (Inr (if q = cpu_query then vector_result [count_row (S ''50'')] else three_rows),
      s\<lparr>sent := sent s @ [prometheus_request (prometheus_url s) q 10]\<rparr>)"
  by (simp add: hm_query_prometheus_def run_defs json_response_def unlabelled_cpu_def
      prometheus_request_def)

lemma count_row_instance: "row_instance (count_row v) = Inl KeyError"
  by (simp add: row_instance_def count_row_def sbind_def)

lemma check_node_resources_unlabelled_cpu:
  "fst (check_node_resources sample_builtins unlabelled_cpu s) = Inl KeyError"
  by (simp add: check_node_resources_def hm_query_unlabelled_cpu truthy_vector_result
      vector_result_rows cpu_step_def count_row_instance run_defs)

lemma check_node_resources_unlabelled_cpu_warnings:
  "warnings (health_report (snd (check_node_resources sample_builtins unlabelled_cpu s))) =
     warnings (health_report s)"
  by (simp add: check_node_resources_def hm_query_unlabelled_cpu truthy_vector_result
      vector_result_rows cpu_step_def count_row_instance run_defs)

lemma up_query_neq_cpu_query:
  "S ''up{job='node_exporter'}'' \<noteq> cpu_query"
  by (simp add: cpu_query_def)

lemma check_node_health_unlabelled_cpu:
  "fst (check_node_health sample_builtins unlabelled_cpu (K8sHealthManager t)) = Inl KeyError
   \<and> warnings (health_report (snd (check_node_health sample_builtins unlabelled_cpu (K8sHealthManager t)))) =
       [S ''No metrics found for kube511.home'']"
proof -
  let ?s = "K8sHealthManager t"
  let ?ns = "[S ''kube501.home'' \<mapsto> True, S ''kube502.home'' \<mapsto> True, S ''kube503.home'' \<mapsto> False]"
  let ?s1 = "py_print ([0x1F5A5, 0xFE0F] @ S ''  Checking Node Health...'') ?s
          \<lparr>sent := sent ?s @ [prometheus_request (prometheus_url ?s) (S ''up{job='node_exporter'}'') 10]\<rparr>"
  let ?s2 = "snd (for_loop (cluster_nodes ?s) (node_check ?ns) True ?s1)"
  have n: "unlabelled_cpu (length (sent ?s)) (prometheus_request (prometheus_url ?s) (S ''up{job='node_exporter'}'') 10)
      = Returns (json_response three_rows)"
    by (simp add: unlabelled_cpu_def prometheus_request_def up_query_neq_cpu_query)
  have a: "status_code (json_response three_rows) = 200" "body_json (json_response three_rows) = Inr three_rows"
    by (simp_all add: json_response_def)
  have tr: "truthy three_rows"
    by (simp add: three_rows_def truthy_vector_result)
  have run: "check_node_health sample_builtins unlabelled_cpu ?s =
      andthen (check_node_resources sample_builtins unlabelled_cpu)
        (\<lambda>_. ok (list_all (\<lambda>n. ?ns n = Some True) (cluster_nodes ?s))) ?s2"
    by (rule check_node_health_resources [where net = unlabelled_cpu and s = ?s, OF n a tr three_rows_dict])
  have w2: "warnings (health_report ?s2) = [S ''No metrics found for kube511.home'']"
    unfolding node_loop [of "cluster_nodes ?s" ?ns True ?s1, THEN conjunct2, THEN conjunct2]
    by (simp add: manager_nodes manager_report S_append [symmetric])
  have w: "warnings (health_report (snd (check_node_resources sample_builtins unlabelled_cpu ?s2))) =
      [S ''No metrics found for kube511.home'']"
    by (simp only: check_node_resources_unlabelled_cpu_warnings w2)
  show ?thesis
    unfolding run
    by (simp only: andthen_const_fst andthen_const_state check_node_resources_unlabelled_cpu w) simp
qed

lemma sample_int_decimal: "py_int sample_builtins (JStr (S ''1.0'')) = Inl ValueError"
  by (simp add: sample_builtins_def is_digits_def S_def)

lemma status_dict_decimal:
  "status_dict sample_builtins (vector_result [vector_row i (S ''1.0'')]) = Inl ValueError"
  by (simp add: status_dict_def vector_result_rows sbind_def status_step_def vector_row_fields
      sample_int_decimal)

section \<open>The reporter\<close>

lemma discord_truncation:
  "(length report < 1990 \<longrightarrow> discord_content report = report)
   \<and> (1990 < length report \<longrightarrow>
        discord_content report = take 1990 report @ 10 # S ''... (truncated)''
        \<and> length (discord_content report) = 2006)"
  by (simp add: discord_content_def)

lemma send_to_discord_skips:
  "send_to_discord B net report [] s =
     (Inr (), py_print (S ''Discord webhook not configured, skipping notification'') s)"
  by (simp add: send_to_discord_def effect_def)

lemma send_to_discord_returns: "fst (send_to_discord B net report webhook_url s) = Inr ()"
proof (cases "webhook_url = []")
  case True
  then show ?thesis by (simp add: send_to_discord_skips)
next
  case False
  show ?thesis
  proof (cases "net (length (sent s))
      \<lparr> verb = POST, url = webhook_url, params = [], payload = Some (discord_payload report),
        verify = True, timeout = 10 \<rparr>")
    case (Returns a)
    then show ?thesis using False
      by (simp add: send_to_discord_def run_defs raise_for_status_def)
  next
    case (Raises e)
    then show ?thesis using False
      by (simp add: send_to_discord_def run_defs)
  qed
qed

lemma str_int_digit:
  "str_int 0 = S ''0''" "str_int 1 = S ''1''" "str_int 8 = S ''8''" "str_int 9 = S ''9''"
  by (simp_all add: str_int_def str_nat.simps S_def)

lemma pod_lines_example:
  "pod_lines [(S ''running'', 8), (S ''pending'', 1), (S ''failed'', 0), (S ''total'', 9)] =
     [S ''## Pod Status'', S ''  Total: 9'', S ''  Running: 8'', S ''  Pending: 1'', S ''  Failed: 0'', []]"
  by (simp add: pod_lines_def pods_get_def str_int_digit S_append [symmetric])

lemma chr_query_pods_network:
  "chr_query_prometheus B pods_network q s =
     (Inr (if q = S ''count(kube_pod_status_phase{phase=\"Running\"})'' then vector_result [count_row (S ''8'')]
           else if q = S ''count(kube_pod_status_phase{phase=\"Pending\"})'' then vector_result [count_row (S ''1'')]
           else if q = S ''count(kube_pod_info)'' then vector_result [count_row (S ''9'')]
           else vector_result []),
      s\<lparr>sent := sent s @ [prometheus_request (r_prometheus_url s) q 30]\<rparr>)"
  by (simp add: chr_query_prometheus_def run_defs pods_network_def prometheus_request_def
      json_response_def raise_for_status_def)

lemma get_result_vector: "get_result (vector_result rows) = Inr (JArr rows)"
  by (simp add: get_result_def vector_result_def sbind_def)

lemma pod_count_example:
  "pod_count sample_builtins (vector_result [count_row (S ''8'')]) = Inr 8"
  "pod_count sample_builtins (vector_result [count_row (S ''1'')]) = Inr 1"
  "pod_count sample_builtins (vector_result [count_row (S ''9'')]) = Inr 9"
  "pod_count sample_builtins (vector_result []) = Inr 0"
  by (simp_all add: pod_count_def get_result_vector sbind_def count_row_def sample_builtins_def
      is_digits_def digits_value_def S_def)

lemma get_node_status_pods_network:
  "fst (get_node_status B pods_network s) = Inr []"
  by (simp add: get_node_status_def andthen_def chr_query_pods_network get_result_vector sbind_def lift_def)

lemma get_pod_status_pods_network:
  "fst (get_pod_status sample_builtins pods_network s) =
     Inr [(S ''running'', 8), (S ''pending'', 1), (S ''failed'', 0), (S ''total'', 9)]"
  by (simp add: get_pod_status_def pod_queries_def andthen_def chr_query_pods_network
      pod_count_example lift_def ok_def)

lemma sample_strftime_epoch:
  "strftime sample_builtins 0 (S ''%Y-%m-%d %H:%M:%S'') = S ''1970-01-01 00:00:00''"
  by (simp add: sample_builtins_def sample_strftime_def S_append [symmetric])

lemma upper_keys:
  "upper (S ''cpu'') = S ''CPU''" "upper (S ''memory'') = S ''MEMORY''" "upper (S ''disk'') = S ''DISK''"
  by (simp_all add: upper_def S_def)

lemma get_alerts_pods_network: "fst (get_alerts B pods_network s) = Inr []"
  by (simp add: get_alerts_def run_defs pods_network_def json_response_def raise_for_status_def
      vector_result_def)

lemma timestamp_requests: "preserves (\<lambda>s. r_timestamp s = t) (requests_call net req)"
  by (simp add: preserves_def requests_call_def split: http_result.splits)

lemma timestamp_stderr: "preserves (\<lambda>s. r_timestamp s = t) (effect (print_stderr l))"
  by (simp add: preserves_def effect_def print_stderr_def)

lemmas timestamp_intros =
  preserves_ok preserves_lift preserves_reads preserves_andthen preserves_try_except
  preserves_for_loop preserves_if timestamp_requests timestamp_stderr

lemma timestamp_chr_query_prometheus:
  "preserves (\<lambda>s. r_timestamp s = t) (chr_query_prometheus B net q)"
  unfolding chr_query_prometheus_def
  by (intro timestamp_intros | clarify)+

lemma timestamp_get_node_status: "preserves (\<lambda>s. r_timestamp s = t) (get_node_status B net)"
  unfolding get_node_status_def
  by (intro timestamp_intros timestamp_chr_query_prometheus)+

lemma timestamp_get_resource_usage: "preserves (\<lambda>s. r_timestamp s = t) (get_resource_usage B net)"
  unfolding get_resource_usage_def
  by (intro timestamp_intros timestamp_chr_query_prometheus)+

lemma timestamp_get_pod_status: "preserves (\<lambda>s. r_timestamp s = t) (get_pod_status B net)"
  unfolding get_pod_status_def
  by (intro timestamp_intros timestamp_chr_query_prometheus)+

lemma timestamp_get_alerts: "preserves (\<lambda>s. r_timestamp s = t) (get_alerts B net)"
  unfolding get_alerts_def
  by (intro timestamp_intros | clarify)+

lemma preservesD: "preserves P m \<Longrightarrow> P s \<Longrightarrow> m s = (res, s') \<Longrightarrow> P s'"
  by (auto simp: preserves_def)

lemma daily_report_example:
  "fst (generate_daily_report sample_builtins pods_network
         (ClusterHealthReporter (S ''http://prometheus.home/'') (S ''daily'') 0)) =
     Inr (join_lines
       [replicate 60 61,
        S ''Kubernetes Cluster Health Report - Daily'',
        S ''Generated: 1970-01-01 00:00:00'',
        replicate 60 61,
        [],
        S ''## Node Status'',
        [],
        S ''## Resource Usage'',
        S ''### CPU'',
        [],
        S ''### MEMORY'',
        [],
        S ''### DISK'',
        [],
        S ''## Pod Status'',
        S ''  Total: 9'',
        S ''  Running: 8'',
        S ''  Pending: 1'',
        S ''  Failed: 0'',
        [],
        S ''## Active Alerts'',
        S ''  '' @ [0x2705] @ S '' No active alerts'',
        [],
        replicate 60 61])"
proof -
  let ?r = "ClusterHealthReporter (S ''http://prometheus.home/'') (S ''daily'') 0"
  obtain s1 where n: "get_node_status sample_builtins pods_network ?r = (Inr [], s1)"
    using get_node_status_pods_network [of sample_builtins ?r]
    by (cases "get_node_status sample_builtins pods_network ?r") simp
  have u: "fst (get_resource_usage sample_builtins pods_network s1) =
      Inr [(S ''cpu'', []), (S ''memory'', []), (S ''disk'', [])]"
    by (simp add: get_resource_usage_def usage_queries_def andthen_def chr_query_pods_network
        get_result_vector sbind_def lift_def ok_def)
  then obtain s2 where u2: "get_resource_usage sample_builtins pods_network s1 =
      (Inr [(S ''cpu'', []), (S ''memory'', []), (S ''disk'', [])], s2)"
    by (cases "get_resource_usage sample_builtins pods_network s1") simp
  obtain s3 where p: "get_pod_status sample_builtins pods_network s2 =
      (Inr [(S ''running'', 8), (S ''pending'', 1), (S ''failed'', 0), (S ''total'', 9)], s3)"
    using get_pod_status_pods_network [of s2]
    by (cases "get_pod_status sample_builtins pods_network s2") simp
  obtain s4 where a: "get_alerts sample_builtins pods_network s3 = (Inr [], s4)"
    using get_alerts_pods_network [of sample_builtins s3]
    by (cases "get_alerts sample_builtins pods_network s3") simp
  have "r_timestamp ?r = 0"
    by (simp add: ClusterHealthReporter_def)
  then have "r_timestamp s1 = 0"
    using n by (rule preservesD [OF timestamp_get_node_status])
  then have "r_timestamp s2 = 0"
    using u2 by (rule preservesD [OF timestamp_get_resource_usage])
  then have "r_timestamp s3 = 0"
    using p by (rule preservesD [OF timestamp_get_pod_status])
  then have ts: "r_timestamp s4 = 0"
    using a by (rule preservesD [OF timestamp_get_alerts])
  have rendered: "daily_text sample_builtins 0 [] [(S ''cpu'', []), (S ''memory'', []), (S ''disk'', [])]
      [(S ''running'', 8), (S ''pending'', 1), (S ''failed'', 0), (S ''total'', 9)] [] = Inr (join_lines
       [replicate 60 61,
        S ''Kubernetes Cluster Health Report - Daily'',
        S ''Generated: 1970-01-01 00:00:00'',
        replicate 60 61,
        [],
        S ''## Node Status'',
        [],
        S ''## Resource Usage'',
        S ''### CPU'',
        [],
        S ''### MEMORY'',
        [],
        S ''### DISK'',
        [],
        S ''## Pod Status'',
        S ''  Total: 9'',
        S ''  Running: 8'',
        S ''  Pending: 1'',
        S ''  Failed: 0'',
        [],
        S ''## Active Alerts'',
        S ''  '' @ [0x2705] @ S '' No active alerts'',
        [],
        replicate 60 61])"
    by (simp add: daily_text_def alert_lines_def sbind_def banner_lines_def node_lines_def
        usage_lines_def upper_keys pod_lines_example sample_strftime_epoch S_append [symmetric])
  show ?thesis
    by (simp add: generate_daily_report_def andthen_def n u2 p a ts rendered lift_def reads_def)
qed

lemma weekly_report_text:
  "fst (generate_weekly_report B net now r) =
     (case fst (generate_daily_report B net r) of
        Inl e \<Rightarrow> Inl e
      | Inr daily \<Rightarrow>
          Inr (join_lines
            [replicate 60 61,
             S ''Kubernetes Cluster Health Report - Weekly'',
             S ''Period: '' @ strftime B (now - timedelta_days 7) (S ''%Y-%m-%d'') @ S '' to ''
               @ strftime B now (S ''%Y-%m-%d''),
             replicate 60 61,
             [],
             daily,
             [],
             S ''## Weekly Summary'',
             S ''  - Average uptime: Check Prometheus for detailed metrics'',
             S ''  - Resource trends: See Grafana dashboards'',
             S ''  - Incident summary: Review alert history'',
             [],
             replicate 60 61]))"
  by (cases "generate_daily_report B net r")
    (simp add: generate_weekly_report_def Let_def andthen_def ok_def split: sum.splits)

lemma sample_dates:
  "strftime sample_builtins 0 (S ''%Y-%m-%d'') = S ''1970-01-01''"
  "strftime sample_builtins 3600000000 (S ''%Y-%m-%d'') = S ''1970-01-01''"
  "strftime sample_builtins 86400000000 (S ''%Y-%m-%d'') = S ''1970-01-02''"
  "strftime sample_builtins (0 - timedelta_days 7) (S ''%Y-%m-%d'') = S ''1969-12-25''"
  "strftime sample_builtins (3600000000 - timedelta_days 7) (S ''%Y-%m-%d'') = S ''1969-12-25''"
  "strftime sample_builtins (86400000000 - timedelta_days 7) (S ''%Y-%m-%d'') = S ''1969-12-26''"
  by (simp_all add: sample_builtins_def sample_strftime_def timedelta_days_def)

lemma alerts_of_vector_result:
  "sbind (sbind (dict_get (vector_result rows) (S ''data'') (JObj [])) (\<lambda>d. dict_get d (S ''alerts'') (JArr []))) iterate
     = Inr []"
  by (simp add: vector_result_def sbind_def)

lemma daily_report_requests:
  "length (sent (snd (generate_daily_report sample_builtins pods_network
      (ClusterHealthReporter (S ''http://prometheus.home/'') (S ''daily'') 0)))) = 9"
  by (simp add: generate_daily_report_def get_node_status_def get_resource_usage_def
      usage_queries_def get_pod_status_def pod_queries_def get_alerts_def
      chr_query_pods_network get_result_vector pod_count_example
      andthen_def ok_def lift_def effect_def reads_def try_except_apply requests_call_def
      alerts_of_vector_result [unfolded sbind_def] sbind_def
      pods_network_def json_response_def raise_for_status_def
      ClusterHealthReporter_def daily_text_def alert_lines_def)

lemma chr_query_ok:
  assumes "net (length (sent r)) (prometheus_request (r_prometheus_url r) q 30) = Returns a"
    and "\<not> (400 \<le> status_code a \<and> status_code a < 600)" and "body_json a = Inr result"
  shows "chr_query_prometheus B net q r =
     (Inr result, r\<lparr>sent := sent r @ [prometheus_request (r_prometheus_url r) q 30]\<rparr>)"
  using assms by (auto simp: chr_query_prometheus_def run_defs raise_for_status_def)

lemma for_pure_node_entries:
  "list_all2 (\<lambda>item e. item_instance item = Inr (fst e) \<and> row_value item = Inr (snd e)) items es
   \<Longrightarrow> for_pure items (\<lambda>item nodes. sbind (node_entry item) (\<lambda>n. Inr (nodes @ [n]))) acc =
       Inr (acc @ map (\<lambda>e. (fst e, if snd e = JStr (S ''1'') then S ''UP'' else S ''DOWN'')) es)"
proof (induction items es arbitrary: acc rule: list_all2_induct)
  case Nil
  show ?case by simp
next
  case (Cons item items e es)
  have "node_entry item = Inr (fst e, if snd e = JStr (S ''1'') then S ''UP'' else S ''DOWN'')"
    using Cons.hyps(1) by (simp add: node_entry_def sbind_def)
  then show ?case
    using Cons.IH [of "acc @ [(fst e, if snd e = JStr (S ''1'') then S ''UP'' else S ''DOWN'')]"]
    by (simp add: sbind_def)
qed

lemma get_node_status_rows:
  assumes "net (length (sent r)) (prometheus_request (r_prometheus_url r) (S ''up{job=\"node-exporter\"}'') 30) = Returns a"
    and "\<not> (400 \<le> status_code a \<and> status_code a < 600)" and "body_json a = Inr result"
    and "sbind (get_result result) iterate = Inr items"
    and "list_all2 (\<lambda>item e. item_instance item = Inr (fst e) \<and> row_value item = Inr (snd e)) items es"
  shows "fst (get_node_status B net r) =
     Inr (map (\<lambda>e. (fst e, if snd e = JStr (S ''1'') then S ''UP'' else S ''DOWN'')) es)"
  using for_pure_node_entries [OF assms(5), of "[]"] assms(4)
  by (simp add: get_node_status_def andthen_def chr_query_ok [where net = net and r = r, OF assms(1,2,3)] lift_def sbind_def
      split: sum.splits)

lemma vector_row_item: "item_instance (vector_row i v) = Inr (JStr i)"
  by (simp add: item_instance_def vector_row_def sbind_def)

lemma iterate_vector_result: "sbind (get_result (vector_result rows)) iterate = Inr rows"
  by (simp add: get_result_vector sbind_def)

section \<open>The claims\<close>

text \<open>
  C1, as amended: for a row of the CPU query whose instance is a known node and whose
  value parses to the float \<open>p\<close>, the loop of \<open>check_node_resources\<close> records the
  issue \<open>High CPU usage\<close> exactly when \<open>p > 90\<close>, and the warning
  \<open>Elevated CPU usage\<close> exactly when \<open>p > 75\<close> and not \<open>p > 90\<close>. For a finite
  \<open>p\<close> the comparison is that of the numbers, so \<open>p = 90\<close> gives a warning and no
  issue.
\<close>

theorem cpu_issue_above_90:
  assumes "row_instance metric = Inr (JStr name)"
    and "name \<in> set (cluster_nodes s)"
    and "sbind (row_value metric) (py_float B) = Inr p"
  shows "fst (cpu_step B metric () s) = Inr ()
    \<and> issues (health_report (snd (cpu_step B metric () s))) =
        issues (health_report s)
        @ (if float_gt p 90 then [S ''High CPU usage on '' @ name @ S '': '' @ fmt_1f B p @ S ''%''] else [])
    \<and> warnings (health_report (snd (cpu_step B metric () s))) =
        warnings (health_report s)
        @ (if \<not> float_gt p 90 \<and> float_gt p 75
           then [S ''Elevated CPU usage on '' @ name @ S '': '' @ fmt_1f B p @ S ''%''] else [])
    \<and> (\<forall>x. p = Finite x \<longrightarrow> (float_gt p 90 \<longleftrightarrow> 90 < x))"
  using assms by (auto simp: cpu_step_def effect_def ok_def)

theorem cpu_issue_above_90_witness:
  "row_instance (vector_row (S ''kube501.home'') (S ''91'')) = Inr (JStr (S ''kube501.home''))
   \<and> S ''kube501.home'' \<in> set (cluster_nodes (K8sHealthManager (S ''t'')))
   \<and> sbind (row_value (vector_row (S ''kube501.home'') (S ''91''))) (py_float sample_builtins) = Inr (Finite 91)
   \<and> issues (health_report (snd (cpu_step sample_builtins (vector_row (S ''kube501.home'') (S ''91'')) ()
        (K8sHealthManager (S ''t''))))) = [S ''High CPU usage on kube501.home: 91.0%'']
   \<and> warnings (health_report (snd (cpu_step sample_builtins (vector_row (S ''kube501.home'') (S ''91'')) ()
        (K8sHealthManager (S ''t''))))) = []"
proof -
  have a: "row_instance (vector_row (S ''kube501.home'') (S ''91'')) = Inr (JStr (S ''kube501.home''))"
    by (simp add: vector_row_fields)
  have b: "S ''kube501.home'' \<in> set (cluster_nodes (K8sHealthManager (S ''t'')))"
    by (simp add: manager_nodes)
  have c: "sbind (row_value (vector_row (S ''kube501.home'') (S ''91''))) (py_float sample_builtins) = Inr (Finite 91)"
    by (simp add: vector_row_fields sbind_def sample_float_digits)
  show ?thesis
    using cpu_issue_above_90 [OF a b c] a b c
    by (simp add: manager_report sample_fmt S_append [symmetric])
qed

text \<open>
  C1 as stated fails at \<open>p = 90\<close>: when the CPU query answers \<open>90\<close> for
  \<open>kube501.home\<close>, \<open>check_node_resources\<close> records no issue, and the warning
  \<open>Elevated CPU usage on kube501.home: 90.0%\<close>.
\<close>

theorem cpu_issue_at_90_counterexample:
  "py_float sample_builtins (JStr (S ''90'')) = Inr (Finite 90)
   \<and> fst (check_node_resources sample_builtins (cpu_network (S ''90'')) (K8sHealthManager (S ''t''))) = Inr ()
   \<and> issues (health_report (snd (check_node_resources sample_builtins (cpu_network (S ''90''))
        (K8sHealthManager (S ''t''))))) = []
   \<and> warnings (health_report (snd (check_node_resources sample_builtins (cpu_network (S ''90''))
        (K8sHealthManager (S ''t''))))) = [S ''Elevated CPU usage on kube501.home: 90.0%'']"
  by (simp add: check_node_resources_def hm_query_cpu_network run_defs sample_float_digits
      sample_fmt cpu_query_neq truthy_vector_result vector_result_rows cpu_step_def
      vector_row_fields manager_nodes manager_report S_append [symmetric])

text \<open>
  C2: \<open>add_issue\<close> always sets the status to UNHEALTHY; \<open>add_warning\<close> sets it to WARNING
  exactly when it is HEALTHY and leaves it as it is otherwise; \<open>add_action\<close> leaves it as
  it is; no sequence of the three operations lowers the severity of the status; and once
  the status is UNHEALTHY, it is UNHEALTHY after any sequence of the three operations. The
  same holds of a whole run of \<open>run_health_check\<close>, whether it returns or raises.
\<close>

theorem status_monotonic:
  "status_of (add_issue m s) = S ''UNHEALTHY''
   \<and> status_of (add_warning m s) = (if status_of s = S ''HEALTHY'' then S ''WARNING'' else status_of s)
   \<and> status_of (add_action m s) = status_of s
   \<and> severity (status_of s) \<le> severity (status_of (foldl mutate s cs))
   \<and> (status_of s = S ''UNHEALTHY'' \<longrightarrow> status_of (foldl mutate s cs) = S ''UNHEALTHY'')
   \<and> severity (status_of s) \<le> severity (status_of (snd (run_health_check B net now s)))
   \<and> (status_of s = S ''UNHEALTHY'' \<longrightarrow>
        status_of (snd (run_health_check B net now s)) = S ''UNHEALTHY'')"
proof -
  have "severity (status_of s) \<le> severity (status_of (snd (run_health_check B net now s)))"
    using preserves_run_health_check [OF stable_severity, of "status_of s" B net now]
    by (simp add: preserves_def)
  moreover have "status_of s = S ''UNHEALTHY'' \<longrightarrow>
      status_of (snd (run_health_check B net now s)) = S ''UNHEALTHY''"
    using preserves_run_health_check [OF stable_unhealthy, of B net now]
    by (simp add: preserves_def)
  ultimately show ?thesis
    using status_add_issue status_add_warning status_add_action severity_foldl unhealthy_foldl
    by blast
qed

theorem status_monotonic_witness:
  "status_of (add_issue (S ''down'') (K8sHealthManager (S ''t''))) = S ''UNHEALTHY''
   \<and> status_of (foldl mutate (add_issue (S ''down'') (K8sHealthManager (S ''t'')))
        [Warning (S ''w''), Action (S ''a''), Warning (S ''v'')]) = S ''UNHEALTHY''"
  using status_monotonic [where m = "S ''x''" and s = "add_issue (S ''down'') (K8sHealthManager (S ''t''))"
      and cs = "[Warning (S ''w''), Action (S ''a''), Warning (S ''v'')]"]
  by (simp add: status_add_issue)

text \<open>
  C3, as amended. Both query functions send a single request. That of the reporter
  never raises: on any exception of the request, on a status from 400 to 599 and on a
  body that is not JSON, it returns \<open>{"status": "error", "data": {"result": []}}\<close> and
  writes \<open>Error querying Prometheus\<close> with the error on standard error. That of the
  health manager returns \<open>None\<close>: on a \<open>RequestException\<close> after recording the issue
  \<open>Prometheus query failed\<close> (printed on standard output, status UNHEALTHY), and on a
  status other than 200; an exception that is not a \<open>RequestException\<close> goes on to the
  caller.
\<close>

theorem query_fails_soft:
  "(case chr_query_prometheus B net q r of (res, r') \<Rightarrow>
      sent r' = sent r @ [prometheus_request (r_prometheus_url r) q 30]
      \<and> (case net (length (sent r)) (prometheus_request (r_prometheus_url r) q 30) of
           Raises e \<Rightarrow>
             res = Inr no_data
             \<and> stderr r' = stderr r @ [S ''Error querying Prometheus: '' @ str_exn B e]
         | Returns a \<Rightarrow>
             if 400 \<le> status_code a \<and> status_code a < 600
             then res = Inr no_data
                  \<and> stderr r' = stderr r @ [S ''Error querying Prometheus: '' @ error_text a]
             else (case body_json a of
                     Inr j \<Rightarrow> res = Inr j \<and> stderr r' = stderr r
                   | Inl e \<Rightarrow>
                       res = Inr no_data
                       \<and> stderr r' = stderr r @ [S ''Error querying Prometheus: '' @ str_exn B e])))
   \<and> (case hm_query_prometheus net q s of (res, s') \<Rightarrow>
      sent s' = sent s @ [prometheus_request (prometheus_url s) q 10]
      \<and> (case net (length (sent s)) (prometheus_request (prometheus_url s) q 10) of
           Raises e \<Rightarrow>
             (case e of
                RequestException m \<Rightarrow>
                  res = Inr JNull
                  \<and> issues (health_report s') = issues (health_report s) @ [S ''Prometheus query failed: '' @ m]
                  \<and> stdout s' = stdout s @ [S ''  '' @ [0x274C] @ S '' ISSUE: Prometheus query failed: '' @ m]
                  \<and> status_of s' = S ''UNHEALTHY''
              | _ \<Rightarrow> res = Inl e)
         | Returns a \<Rightarrow>
             if status_code a = 200
             then (case body_json a of
                     Inr j \<Rightarrow> res = Inr j
                   | Inl e \<Rightarrow>
                       (case e of
                          RequestException m \<Rightarrow>
                            res = Inr JNull
                            \<and> issues (health_report s') =
                                issues (health_report s) @ [S ''Prometheus query failed: '' @ m]
                        | _ \<Rightarrow> res = Inl e))
             else res = Inr JNull))"
proof -
  have rep: "case chr_query_prometheus B net q r of (res, r') \<Rightarrow>
      sent r' = sent r @ [prometheus_request (r_prometheus_url r) q 30]
      \<and> (case net (length (sent r)) (prometheus_request (r_prometheus_url r) q 30) of
           Raises e \<Rightarrow>
             res = Inr no_data
             \<and> stderr r' = stderr r @ [S ''Error querying Prometheus: '' @ str_exn B e]
         | Returns a \<Rightarrow>
             if 400 \<le> status_code a \<and> status_code a < 600
             then res = Inr no_data
                  \<and> stderr r' = stderr r @ [S ''Error querying Prometheus: '' @ error_text a]
             else (case body_json a of
                     Inr j \<Rightarrow> res = Inr j \<and> stderr r' = stderr r
                   | Inl e \<Rightarrow>
                       res = Inr no_data
                       \<and> stderr r' = stderr r @ [S ''Error querying Prometheus: '' @ str_exn B e]))"
  proof (cases "net (length (sent r)) (prometheus_request (r_prometheus_url r) q 30)")
    case (Raises e)
    then show ?thesis by (simp add: chr_query_prometheus_def run_defs)
  next
    case (Returns a)
    then show ?thesis
      by (cases "body_json a") (simp_all add: chr_query_prometheus_def run_defs raise_for_status_def)
  qed
  have hm: "case hm_query_prometheus net q s of (res, s') \<Rightarrow>
      sent s' = sent s @ [prometheus_request (prometheus_url s) q 10]
      \<and> (case net (length (sent s)) (prometheus_request (prometheus_url s) q 10) of
           Raises e \<Rightarrow>
             (case e of
                RequestException m \<Rightarrow>
                  res = Inr JNull
                  \<and> issues (health_report s') = issues (health_report s) @ [S ''Prometheus query failed: '' @ m]
                  \<and> stdout s' = stdout s @ [S ''  '' @ [0x274C] @ S '' ISSUE: Prometheus query failed: '' @ m]
                  \<and> status_of s' = S ''UNHEALTHY''
              | _ \<Rightarrow> res = Inl e)
         | Returns a \<Rightarrow>
             if status_code a = 200
             then (case body_json a of
                     Inr j \<Rightarrow> res = Inr j
                   | Inl e \<Rightarrow>
                       (case e of
                          RequestException m \<Rightarrow>
                            res = Inr JNull
                            \<and> issues (health_report s') =
                                issues (health_report s) @ [S ''Prometheus query failed: '' @ m]
                        | _ \<Rightarrow> res = Inl e))
             else res = Inr JNull)"
  proof (cases "net (length (sent s)) (prometheus_request (prometheus_url s) q 10)")
    case (Raises e)
    then show ?thesis
      by (cases e) (simp_all add: hm_query_prometheus_def run_defs status_add_issue S_append [symmetric])
  next
    case (Returns a)
    show ?thesis
    proof (cases "body_json a")
      case (Inr j)
      then show ?thesis using Returns by (simp add: hm_query_prometheus_def run_defs)
    next
      case (Inl e)
      then show ?thesis using Returns
        by (cases e) (simp_all add: hm_query_prometheus_def run_defs)
    qed
  qed
  from rep hm show ?thesis by simp
qed

text \<open>
  C3 as stated fails for the health manager on a response with status 500: the query
  returns \<open>None\<close>, which is not the empty result set, and nothing is printed or
  recorded.
\<close>

theorem query_non_200_silent_counterexample:
  "fst (hm_query_prometheus failing (S ''up'') (K8sHealthManager (S ''t''))) = Inr JNull
   \<and> JNull \<noteq> no_data
   \<and> stdout (snd (hm_query_prometheus failing (S ''up'') (K8sHealthManager (S ''t'')))) = []
   \<and> stderr (snd (hm_query_prometheus failing (S ''up'') (K8sHealthManager (S ''t'')))) = []
   \<and> issues (health_report (snd (hm_query_prometheus failing (S ''up'') (K8sHealthManager (S ''t''))))) = []
   \<and> warnings (health_report (snd (hm_query_prometheus failing (S ''up'') (K8sHealthManager (S ''t''))))) = []"
  by (simp add: hm_query_prometheus_def run_defs failing_def server_error_def no_data_def
      K8sHealthManager_def)

text \<open>
  C4: take a node of the known-node list with no row in the result of the up/down
  query, the query having answered with status 200 and rows that the status loop reads.
  Both checks record a warning for the node, \<open>No metrics found\<close> and
  \<open>cAdvisor not reporting\<close>, and the loop over the nodes records an issue for the nodes
  whose sample is not 1 and for no other, so none for this node; when no node is down the
  loop does not make the status UNHEALTHY. \<open>check_container_metrics\<close> returns false.
  \<open>check_node_health\<close> ends with \<open>check_node_resources\<close>, run in the state \<open>s2\<close> the
  loop leaves: it returns false when that call returns, and raises what that call raises.
\<close>

theorem no_metrics_is_warning:
  fixes s :: manager and ns :: "pystr \<rightharpoonup> bool"
  defines "s2 \<equiv> snd (for_loop (cluster_nodes s) (node_check ns) True
      (py_print ([0x1F5A5, 0xFE0F] @ S ''  Checking Node Health...'') s
         \<lparr>sent := sent s @ [prometheus_request (prometheus_url s) (S ''up{job='node_exporter'}'') 10]\<rparr>))"
  assumes "node \<in> set (cluster_nodes s)"
    and "status_code a = 200" and "body_json a = Inr result"
    and "result_rows result = Inr rows"
    and "list_all (\<lambda>row. row_instance row \<noteq> Inr (JStr node)) rows"
    and "status_dict B result = Inr ns"
  shows "(net (length (sent s)) (prometheus_request (prometheus_url s) (S ''up{job='node_exporter'}'') 10) = Returns a \<longrightarrow>
            fst (check_node_health B net s) =
              (case fst (check_node_resources B net s2) of Inl e \<Rightarrow> Inl e | Inr u \<Rightarrow> Inr False)
            \<and> snd (check_node_health B net s) = snd (check_node_resources B net s2)
            \<and> S ''No metrics found for '' @ node \<in> set (warnings (health_report s2))
            \<and> S ''No metrics found for '' @ node
                \<in> set (warnings (health_report (snd (check_node_health B net s))))
            \<and> issues (health_report s2) =
                issues (health_report s)
                @ map (\<lambda>n. S ''Node exporter down on '' @ n) (filter (\<lambda>n. ns n = Some False) (cluster_nodes s)))
    \<and> (net (length (sent s)) (prometheus_request (prometheus_url s) (S ''up{job='cadvisor'}'') 10) = Returns a \<longrightarrow>
            fst (check_container_metrics B net s) = Inr False
            \<and> S ''cAdvisor not reporting from '' @ node
                \<in> set (warnings (health_report (snd (check_container_metrics B net s))))
            \<and> issues (health_report (snd (check_container_metrics B net s))) =
                issues (health_report s)
                @ map (\<lambda>n. S ''cAdvisor down on '' @ n) (filter (\<lambda>n. ns n = Some False) (cluster_nodes s)))
    \<and> ns node = None
    \<and> fst (for_loop (cluster_nodes s) (node_check ns) True s) = Inr False
    \<and> issues (health_report (snd (for_loop (cluster_nodes s) (node_check ns) True s))) =
        issues (health_report s)
        @ map (\<lambda>n. S ''Node exporter down on '' @ n) (filter (\<lambda>n. ns n = Some False) (cluster_nodes s))
    \<and> (list_all (\<lambda>n. ns n \<noteq> Some False) (cluster_nodes s) \<and> status_of s \<noteq> S ''UNHEALTHY'' \<longrightarrow>
          status_of (snd (for_loop (cluster_nodes s) (node_check ns) True s)) \<noteq> S ''UNHEALTHY''
          \<and> status_of (snd (for_loop (cluster_nodes s) (cadvisor_check ns) True s)) \<noteq> S ''UNHEALTHY'')"
proof -
  have none: "ns node = None"
    using assms(7,5,6) by (rule status_dict_absent)
  have tr: "truthy result"
    using assms(5) by (rule result_rows_truthy)
  have not_up: "\<not> list_all (\<lambda>n. ns n = Some True) (cluster_nodes s)"
    using assms(2) none by (rule absent_not_all_up)
  let ?s1 = "py_print ([0x1F5A5, 0xFE0F] @ S ''  Checking Node Health...'') s
        \<lparr>sent := sent s @ [prometheus_request (prometheus_url s) (S ''up{job='node_exporter'}'') 10]\<rparr>"
  note nl = node_loop [of "cluster_nodes s" ns True ?s1]
  have w2: "S ''No metrics found for '' @ node \<in> set (warnings (health_report s2))"
    unfolding s2_def nl [THEN conjunct2, THEN conjunct2]
    using assms(2) none by (simp add: absent_warned)
  have i2: "issues (health_report s2) =
      issues (health_report s)
      @ map (\<lambda>n. S ''Node exporter down on '' @ n) (filter (\<lambda>n. ns n = Some False) (cluster_nodes s))"
    unfolding s2_def nl [THEN conjunct2, THEN conjunct1] by simp
  have health: "net (length (sent s)) (prometheus_request (prometheus_url s) (S ''up{job='node_exporter'}'') 10) = Returns a \<longrightarrow>
      fst (check_node_health B net s) =
        (case fst (check_node_resources B net s2) of Inl e \<Rightarrow> Inl e | Inr u \<Rightarrow> Inr False)
      \<and> snd (check_node_health B net s) = snd (check_node_resources B net s2)
      \<and> S ''No metrics found for '' @ node \<in> set (warnings (health_report s2))
      \<and> S ''No metrics found for '' @ node \<in> set (warnings (health_report (snd (check_node_health B net s))))
      \<and> issues (health_report s2) =
          issues (health_report s)
          @ map (\<lambda>n. S ''Node exporter down on '' @ n) (filter (\<lambda>n. ns n = Some False) (cluster_nodes s))"
  proof (intro impI)
    assume n: "net (length (sent s)) (prometheus_request (prometheus_url s) (S ''up{job='node_exporter'}'') 10) = Returns a"
    have run: "check_node_health B net s = andthen (check_node_resources B net) (\<lambda>_. ok False) s2"
      unfolding s2_def
      using check_node_health_resources [where net = net and s = s, OF n assms(3,4) tr assms(7)] not_up
      by simp
    have "S ''No metrics found for '' @ node \<in> set (warnings (health_report (snd (check_node_resources B net s2))))"
      using preserves_check_node_resources [OF stable_has_warning, of "S ''No metrics found for '' @ node" B net] w2
      by (simp add: preserves_def)
    then have "fst (check_node_health B net s) =
        (case fst (check_node_resources B net s2) of Inl e \<Rightarrow> Inl e | Inr u \<Rightarrow> Inr False)
      \<and> snd (check_node_health B net s) = snd (check_node_resources B net s2)
      \<and> S ''No metrics found for '' @ node \<in> set (warnings (health_report (snd (check_node_health B net s))))"
      unfolding run by (simp add: andthen_const_fst andthen_const_state)
    with w2 i2 show "fst (check_node_health B net s) =
        (case fst (check_node_resources B net s2) of Inl e \<Rightarrow> Inl e | Inr u \<Rightarrow> Inr False)
      \<and> snd (check_node_health B net s) = snd (check_node_resources B net s2)
      \<and> S ''No metrics found for '' @ node \<in> set (warnings (health_report s2))
      \<and> S ''No metrics found for '' @ node \<in> set (warnings (health_report (snd (check_node_health B net s))))
      \<and> issues (health_report s2) =
          issues (health_report s)
          @ map (\<lambda>n. S ''Node exporter down on '' @ n) (filter (\<lambda>n. ns n = Some False) (cluster_nodes s))"
      by blast
  qed
  have container: "net (length (sent s)) (prometheus_request (prometheus_url s) (S ''up{job='cadvisor'}'') 10) = Returns a \<longrightarrow>
      fst (check_container_metrics B net s) = Inr False
      \<and> S ''cAdvisor not reporting from '' @ node
          \<in> set (warnings (health_report (snd (check_container_metrics B net s))))
      \<and> issues (health_report (snd (check_container_metrics B net s))) =
          issues (health_report s)
          @ map (\<lambda>n. S ''cAdvisor down on '' @ n) (filter (\<lambda>n. ns n = Some False) (cluster_nodes s))"
  proof (intro impI)
    assume n: "net (length (sent s)) (prometheus_request (prometheus_url s) (S ''up{job='cadvisor'}'') 10) = Returns a"
    let ?c1 = "py_print ([0x1F433] @ S '' Checking Container Metrics...'') s
          \<lparr>sent := sent s @ [prometheus_request (prometheus_url s) (S ''up{job='cadvisor'}'') 10]\<rparr>"
    show "fst (check_container_metrics B net s) = Inr False
      \<and> S ''cAdvisor not reporting from '' @ node
          \<in> set (warnings (health_report (snd (check_container_metrics B net s))))
      \<and> issues (health_report (snd (check_container_metrics B net s))) =
          issues (health_report s)
          @ map (\<lambda>n. S ''cAdvisor down on '' @ n) (filter (\<lambda>n. ns n = Some False) (cluster_nodes s))"
      using check_container_metrics_run [where net = net and s = s, OF n assms(3,4) tr assms(7)]
        cadvisor_loop [of "cluster_nodes s" ns True ?c1] not_up assms(2) none
      by (simp add: absent_warned)
  qed
  have loop1: "fst (for_loop (cluster_nodes s) (node_check ns) True s) = Inr False"
    using node_loop [of "cluster_nodes s" ns True s] not_up by simp
  have loop2: "issues (health_report (snd (for_loop (cluster_nodes s) (node_check ns) True s))) =
        issues (health_report s)
        @ map (\<lambda>n. S ''Node exporter down on '' @ n) (filter (\<lambda>n. ns n = Some False) (cluster_nodes s))"
    using node_loop [of "cluster_nodes s" ns True s] by simp
  have quiet: "list_all (\<lambda>n. ns n \<noteq> Some False) (cluster_nodes s) \<and> status_of s \<noteq> S ''UNHEALTHY'' \<longrightarrow>
          status_of (snd (for_loop (cluster_nodes s) (node_check ns) True s)) \<noteq> S ''UNHEALTHY''
          \<and> status_of (snd (for_loop (cluster_nodes s) (cadvisor_check ns) True s)) \<noteq> S ''UNHEALTHY''"
    by (simp add: node_loop_status cadvisor_loop_status)
  show ?thesis
    by (intro conjI health container none loop1 loop2 quiet)
qed

theorem no_metrics_is_warning_witness:
  "fst (check_node_health sample_builtins three_nodes (K8sHealthManager (S ''t''))) = Inr False
   \<and> S ''No metrics found for kube511.home''
       \<in> set (warnings (health_report (snd (check_node_health sample_builtins three_nodes (K8sHealthManager (S ''t'')))))) 
   \<and> fst (check_container_metrics sample_builtins three_nodes (K8sHealthManager (S ''t''))) = Inr False
   \<and> S ''cAdvisor not reporting from kube511.home''
       \<in> set (warnings (health_report (snd (check_container_metrics sample_builtins three_nodes (K8sHealthManager (S ''t''))))))
   \<and> issues (health_report (snd (check_container_metrics sample_builtins three_nodes (K8sHealthManager (S ''t''))))) =
       [S ''cAdvisor down on kube503.home'']"
proof -
  let ?s = "K8sHealthManager (S ''t'')"
  let ?ns = "[S ''kube501.home'' \<mapsto> True, S ''kube502.home'' \<mapsto> True, S ''kube503.home'' \<mapsto> False]"
  have h1: "S ''kube511.home'' \<in> set (cluster_nodes ?s)"
    by (simp add: manager_nodes)
  have h2: "status_code (json_response three_rows) = 200"
    and h3: "body_json (json_response three_rows) = Inr three_rows"
    by (simp_all add: json_response_def)
  have h6: "list_all (\<lambda>row. row_instance row \<noteq> Inr (JStr (S ''kube511.home'')))
      [vector_row (S ''kube501.home'') (S ''1''), vector_row (S ''kube502.home'') (S ''1''),
       vector_row (S ''kube503.home'') (S ''0'')]"
    by (simp add: vector_row_fields)
  have n1: "three_nodes (length (sent ?s)) (prometheus_request (prometheus_url ?s) (S ''up{job='node_exporter'}'') 10)
      = Returns (json_response three_rows)"
    and n2: "three_nodes (length (sent ?s)) (prometheus_request (prometheus_url ?s) (S ''up{job='cadvisor'}'') 10)
      = Returns (json_response three_rows)"
    by (simp_all add: three_nodes_def)
  note claim = no_metrics_is_warning [where net = three_nodes and s = ?s and node = "S ''kube511.home''"
        and a = "json_response three_rows" and B = sample_builtins and ns = ?ns,
        OF h1 h2 h3 three_rows_rows h6 three_rows_dict]
  note health = claim [THEN conjunct1, THEN mp, OF n1]
  note container = claim [THEN conjunct2, THEN conjunct1, THEN mp, OF n2]
  have "fst (check_node_health sample_builtins three_nodes ?s) = Inr False"
    using health [THEN conjunct1] by (simp only: check_node_resources_three_nodes) simp
  moreover have "S ''No metrics found for kube511.home''
       \<in> set (warnings (health_report (snd (check_node_health sample_builtins three_nodes ?s))))"
    using health [THEN conjunct2, THEN conjunct2, THEN conjunct2, THEN conjunct1]
    by (simp add: S_append [symmetric])
  ultimately show ?thesis
    using container
    by (simp add: manager_nodes manager_report S_append [symmetric])
qed

text \<open>
  C4 as stated fails when \<open>check_node_resources\<close> raises: the up/down query answers
  with rows for three nodes and none for \<open>kube511.home\<close>, and the CPU query with a row
  that has no \<open>instance\<close> label. \<open>check_node_health\<close> records the warning for
  \<open>kube511.home\<close> and raises KeyError; it does not return false.
\<close>

theorem no_metrics_resources_raise_counterexample:
  "S ''kube511.home'' \<in> set (cluster_nodes (K8sHealthManager (S ''t'')))
   \<and> unlabelled_cpu 0 (prometheus_request (S ''http://prometheus.home'') (S ''up{job='node_exporter'}'') 10) =
       Returns (json_response three_rows)
   \<and> status_dict sample_builtins three_rows =
       Inr [S ''kube501.home'' \<mapsto> True, S ''kube502.home'' \<mapsto> True, S ''kube503.home'' \<mapsto> False]
   \<and> fst (check_node_health sample_builtins unlabelled_cpu (K8sHealthManager (S ''t''))) = Inl KeyError
   \<and> warnings (health_report (snd (check_node_health sample_builtins unlabelled_cpu (K8sHealthManager (S ''t''))))) =
       [S ''No metrics found for kube511.home'']"
  using check_node_health_unlabelled_cpu [of "S ''t''"]
  by (simp add: manager_nodes three_rows_dict unlabelled_cpu_def prometheus_request_def
      up_query_neq_cpu_query)

text \<open>
  C5: the exit code of the health check is 0 for HEALTHY, 2 for WARNING and 1 for
  UNHEALTHY; a run that completes exits with the code of the status its report holds,
  that status is one of the three, and so the code is 0, 2 or 1.
\<close>

theorem exit_code_mapping:
  "exit_code (S ''HEALTHY'') = 0 \<and> exit_code (S ''WARNING'') = 2 \<and> exit_code (S ''UNHEALTHY'') = 1
   \<and> (case main B net now_iso now of
         (Exit c, s) \<Rightarrow>
           c = exit_code (status_of s)
           \<and> status_of s \<in> {S ''HEALTHY'', S ''WARNING'', S ''UNHEALTHY''}
           \<and> c \<in> {0, 2, 1}
       | (Uncaught e, s) \<Rightarrow> True)"
proof -
  have codes: "exit_code (S ''HEALTHY'') = 0 \<and> exit_code (S ''WARNING'') = 2 \<and> exit_code (S ''UNHEALTHY'') = 1"
    by (simp add: exit_code_def)
  have run: "case main B net now_iso now of
         (Exit c, s) \<Rightarrow>
           c = exit_code (status_of s)
           \<and> status_of s \<in> {S ''HEALTHY'', S ''WARNING'', S ''UNHEALTHY''}
           \<and> c \<in> {0, 2, 1}
       | (Uncaught e, s) \<Rightarrow> True"
  proof (cases "run_health_check B net now (K8sHealthManager now_iso)")
    case (Pair res s')
    have v: "valid_status s'" using Pair by (rule valid_status_main)
    show ?thesis
    proof (cases res)
      case (Inl e)
      then show ?thesis using Pair by (simp add: main_def)
    next
      case (Inr r)
      then have "r = health_report s'" using Pair run_returns_report by simp
      then show ?thesis using Pair Inr v
        by (auto simp: main_def valid_status_def status_of_def exit_code_def)
    qed
  qed
  from codes run show ?thesis by simp
qed

theorem exit_code_mapping_witness:
  "fst (main sample_builtins unreachable (S ''2026-01-01T00:00:00'') 0) = Exit 1
   \<and> status_of (snd (main sample_builtins unreachable (S ''2026-01-01T00:00:00'') 0)) = S ''UNHEALTHY''"
proof -
  obtain c s where m: "main sample_builtins unreachable (S ''2026-01-01T00:00:00'') 0 = (c, s)"
    by (cases "main sample_builtins unreachable (S ''2026-01-01T00:00:00'') 0")
  have c: "c = Exit 1"
    using main_unreachable [of sample_builtins "S ''2026-01-01T00:00:00''" 0] m by simp
  have "1 = exit_code (status_of s) \<and> status_of s \<in> {S ''HEALTHY'', S ''WARNING'', S ''UNHEALTHY''}"
    using exit_code_mapping [of sample_builtins unreachable "S ''2026-01-01T00:00:00''" 0] m c by simp
  then have "status_of s = S ''UNHEALTHY''"
    by (auto simp: exit_code_def)
  then show ?thesis using m c by simp
qed

text \<open>
  C6 at a report of exactly 1990 characters: \<open>send_to_discord\<close> does not leave it as
  it is. The content is the whole report followed by the truncation suffix, 2006
  characters. (For a shorter report the content is the report, for a longer one its
  first 1990 characters and the suffix; with no webhook URL nothing is sent; the function
  never raises: lemmas \<open>discord_truncation\<close>, \<open>send_to_discord_skips\<close>,
  \<open>send_to_discord_returns\<close>.)
\<close>

theorem discord_content_at_1990:
  "length (replicate 1990 (120 :: nat)) = 1990
   \<and> discord_content (replicate 1990 120) = replicate 1990 120 @ 10 # S ''... (truncated)''
   \<and> discord_content (replicate 1990 120) \<noteq> replicate 1990 120
   \<and> length (discord_content (replicate 1990 120)) = 2006"
  by (simp add: discord_content_def)

text \<open>
  C7: in the report, \<open>get_node_status\<close> gives every sample of the answer the status
  \<open>UP\<close> exactly when its value is the string \<open>1\<close>, and \<open>DOWN\<close> for every other value.
  In the health check, when \<open>int\<close> reads the value of every sample, the status of a node
  is up exactly when the integer of its (last) sample is 1; \<open>check_node_health\<close> and
  \<open>check_container_metrics\<close> record the issue \<open>down\<close> for the known nodes whose integer
  is not 1 and for no other, and return true only if every known node is up. When
  \<open>int\<close> raises on the value of a sample, the samples before it being read, both checks
  raise what it raises.
\<close>

theorem up_iff_value_1:
  fixes s :: manager and ks :: "(pystr \<times> int) list"
  defines "ns \<equiv> map_of (rev (map (\<lambda>e. (fst e, snd e = 1)) ks))"
  defines "s2 \<equiv> snd (for_loop (cluster_nodes s) (node_check ns) True
      (py_print ([0x1F5A5, 0xFE0F] @ S ''  Checking Node Health...'') s
         \<lparr>sent := sent s @ [prometheus_request (prometheus_url s) (S ''up{job='node_exporter'}'') 10]\<rparr>))"
  assumes "rnet (length (sent r)) (prometheus_request (r_prometheus_url r) (S ''up{job=\"node-exporter\"}'') 30) = Returns ra"
    and "\<not> (400 \<le> status_code ra \<and> status_code ra < 600)"
    and "body_json ra = Inr rresult"
    and "sbind (get_result rresult) iterate = Inr items"
    and "list_all2 (\<lambda>item e. item_instance item = Inr (fst e) \<and> row_value item = Inr (snd e)) items es"
    and "status_code a = 200" and "body_json a = Inr result"
    and "result_rows result = Inr rows"
    and "list_all2 (\<lambda>row e. row_instance row = Inr (JStr (fst e)) \<and> sbind (row_value row) (py_int B) = Inr (snd e)) rows ks"
  shows "fst (get_node_status B rnet r) =
        Inr (map (\<lambda>e. (fst e, if snd e = JStr (S ''1'') then S ''UP'' else S ''DOWN'')) es)
    \<and> status_dict B result = Inr ns
    \<and> (\<forall>n k. distinct (map fst ks) \<and> (n, k) \<in> set ks \<longrightarrow> ns n = Some (k = 1))
    \<and> (net (length (sent s)) (prometheus_request (prometheus_url s) (S ''up{job='node_exporter'}'') 10) = Returns a \<longrightarrow>
          fst (check_node_health B net s) =
            (case fst (check_node_resources B net s2) of
               Inl e \<Rightarrow> Inl e
             | Inr u \<Rightarrow> Inr (list_all (\<lambda>n. ns n = Some True) (cluster_nodes s)))
          \<and> snd (check_node_health B net s) = snd (check_node_resources B net s2)
          \<and> issues (health_report s2) =
              issues (health_report s)
              @ map (\<lambda>n. S ''Node exporter down on '' @ n) (filter (\<lambda>n. ns n = Some False) (cluster_nodes s)))
    \<and> (net (length (sent s)) (prometheus_request (prometheus_url s) (S ''up{job='cadvisor'}'') 10) = Returns a \<longrightarrow>
          fst (check_container_metrics B net s) = Inr (list_all (\<lambda>n. ns n = Some True) (cluster_nodes s))
          \<and> issues (health_report (snd (check_container_metrics B net s))) =
              issues (health_report s)
              @ map (\<lambda>n. S ''cAdvisor down on '' @ n) (filter (\<lambda>n. ns n = Some False) (cluster_nodes s)))
    \<and> (\<forall>a' result' row post i e.
          status_code a' = 200 \<and> body_json a' = Inr result' \<and> result_rows result' = Inr (rows @ row # post)
          \<and> row_instance row = Inr i \<and> sbind (row_value row) (py_int B) = Inl e \<longrightarrow>
          status_dict B result' = Inl e
          \<and> (net (length (sent s)) (prometheus_request (prometheus_url s) (S ''up{job='node_exporter'}'') 10) = Returns a' \<longrightarrow>
                fst (check_node_health B net s) = Inl e)
          \<and> (net (length (sent s)) (prometheus_request (prometheus_url s) (S ''up{job='cadvisor'}'') 10) = Returns a' \<longrightarrow>
                fst (check_container_metrics B net s) = Inl e))"
proof -
  have report: "fst (get_node_status B rnet r) =
        Inr (map (\<lambda>e. (fst e, if snd e = JStr (S ''1'') then S ''UP'' else S ''DOWN'')) es)"
    using assms(3-7) by (rule get_node_status_rows)
  have dict: "status_dict B result = Inr ns"
    unfolding ns_def using assms(10,11) by (rule status_dict_rows)
  have tr: "truthy result"
    using assms(10) by (rule result_rows_truthy)
  have single: "\<forall>n k. distinct (map fst ks) \<and> (n, k) \<in> set ks \<longrightarrow> ns n = Some (k = 1)"
    unfolding ns_def by (auto intro: up_map_distinct)
  let ?s1 = "py_print ([0x1F5A5, 0xFE0F] @ S ''  Checking Node Health...'') s
        \<lparr>sent := sent s @ [prometheus_request (prometheus_url s) (S ''up{job='node_exporter'}'') 10]\<rparr>"
  have health: "net (length (sent s)) (prometheus_request (prometheus_url s) (S ''up{job='node_exporter'}'') 10) = Returns a \<longrightarrow>
          fst (check_node_health B net s) =
            (case fst (check_node_resources B net s2) of
               Inl e \<Rightarrow> Inl e
             | Inr u \<Rightarrow> Inr (list_all (\<lambda>n. ns n = Some True) (cluster_nodes s)))
          \<and> snd (check_node_health B net s) = snd (check_node_resources B net s2)
          \<and> issues (health_report s2) =
              issues (health_report s)
              @ map (\<lambda>n. S ''Node exporter down on '' @ n) (filter (\<lambda>n. ns n = Some False) (cluster_nodes s))"
  proof (intro impI conjI)
    assume n: "net (length (sent s)) (prometheus_request (prometheus_url s) (S ''up{job='node_exporter'}'') 10) = Returns a"
    have run: "check_node_health B net s =
        andthen (check_node_resources B net) (\<lambda>_. ok (list_all (\<lambda>n. ns n = Some True) (cluster_nodes s))) s2"
      unfolding s2_def
      by (rule check_node_health_resources [where net = net and s = s, OF n assms(8,9) tr dict])
    show "fst (check_node_health B net s) =
            (case fst (check_node_resources B net s2) of
               Inl e \<Rightarrow> Inl e
             | Inr u \<Rightarrow> Inr (list_all (\<lambda>n. ns n = Some True) (cluster_nodes s)))"
      unfolding run by (rule andthen_const_fst)
    show "snd (check_node_health B net s) = snd (check_node_resources B net s2)"
      unfolding run by (rule andthen_const_state)
    show "issues (health_report s2) =
              issues (health_report s)
              @ map (\<lambda>n. S ''Node exporter down on '' @ n) (filter (\<lambda>n. ns n = Some False) (cluster_nodes s))"
      unfolding s2_def node_loop [of "cluster_nodes s" ns True ?s1, THEN conjunct2, THEN conjunct1]
      by simp
  qed
  have container: "net (length (sent s)) (prometheus_request (prometheus_url s) (S ''up{job='cadvisor'}'') 10) = Returns a \<longrightarrow>
          fst (check_container_metrics B net s) = Inr (list_all (\<lambda>n. ns n = Some True) (cluster_nodes s))
          \<and> issues (health_report (snd (check_container_metrics B net s))) =
              issues (health_report s)
              @ map (\<lambda>n. S ''cAdvisor down on '' @ n) (filter (\<lambda>n. ns n = Some False) (cluster_nodes s))"
  proof (intro impI)
    assume n: "net (length (sent s)) (prometheus_request (prometheus_url s) (S ''up{job='cadvisor'}'') 10) = Returns a"
    let ?c1 = "py_print ([0x1F433] @ S '' Checking Container Metrics...'') s
          \<lparr>sent := sent s @ [prometheus_request (prometheus_url s) (S ''up{job='cadvisor'}'') 10]\<rparr>"
    show "fst (check_container_metrics B net s) = Inr (list_all (\<lambda>n. ns n = Some True) (cluster_nodes s))
          \<and> issues (health_report (snd (check_container_metrics B net s))) =
              issues (health_report s)
              @ map (\<lambda>n. S ''cAdvisor down on '' @ n) (filter (\<lambda>n. ns n = Some False) (cluster_nodes s))"
      using check_container_metrics_run [where net = net and s = s, OF n assms(8,9) tr dict]
        cadvisor_loop [of "cluster_nodes s" ns True ?c1]
      by simp
  qed
  have raises: "\<forall>a' result' row post i e.
          status_code a' = 200 \<and> body_json a' = Inr result' \<and> result_rows result' = Inr (rows @ row # post)
          \<and> row_instance row = Inr i \<and> sbind (row_value row) (py_int B) = Inl e \<longrightarrow>
          status_dict B result' = Inl e
          \<and> (net (length (sent s)) (prometheus_request (prometheus_url s) (S ''up{job='node_exporter'}'') 10) = Returns a' \<longrightarrow>
                fst (check_node_health B net s) = Inl e)
          \<and> (net (length (sent s)) (prometheus_request (prometheus_url s) (S ''up{job='cadvisor'}'') 10) = Returns a' \<longrightarrow>
                fst (check_container_metrics B net s) = Inl e)"
  proof (intro allI impI, elim conjE)
    fix a' :: response and result' row post i e
    assume h: "status_code a' = 200" "body_json a' = Inr result'"
      "result_rows result' = Inr (rows @ row # post)"
      "row_instance row = Inr i" "sbind (row_value row) (py_int B) = Inl e"
    have d: "status_dict B result' = Inl e"
      using h(3) assms(11) h(4,5) by (rule status_dict_raises)
    have t: "truthy result'"
      using h(3) by (rule result_rows_truthy)
    show "status_dict B result' = Inl e
          \<and> (net (length (sent s)) (prometheus_request (prometheus_url s) (S ''up{job='node_exporter'}'') 10) = Returns a' \<longrightarrow>
                fst (check_node_health B net s) = Inl e)
          \<and> (net (length (sent s)) (prometheus_request (prometheus_url s) (S ''up{job='cadvisor'}'') 10) = Returns a' \<longrightarrow>
                fst (check_container_metrics B net s) = Inl e)"
      using d check_raises [where net = net and s = s, OF h(1,2) t d] by blast
  qed
  show ?thesis
    by (intro conjI report dict single health container raises)
qed

theorem up_iff_value_1_witness:
  "fst (get_node_status sample_builtins three_nodes
          (ClusterHealthReporter (S ''http://prometheus.home'') (S ''daily'') 0)) =
     Inr [(JStr (S ''kube501.home''), S ''UP''), (JStr (S ''kube502.home''), S ''UP''),
          (JStr (S ''kube503.home''), S ''DOWN'')]
   \<and> status_dict sample_builtins three_rows =
       Inr [S ''kube501.home'' \<mapsto> True, S ''kube502.home'' \<mapsto> True, S ''kube503.home'' \<mapsto> False]
   \<and> fst (check_node_health sample_builtins three_nodes (K8sHealthManager (S ''t''))) = Inr False
   \<and> fst (check_container_metrics sample_builtins three_nodes (K8sHealthManager (S ''t''))) = Inr False
   \<and> issues (health_report (snd (check_container_metrics sample_builtins three_nodes (K8sHealthManager (S ''t''))))) =
       [S ''cAdvisor down on kube503.home'']
   \<and> status_dict sample_builtins
        (vector_result
          [vector_row (S ''kube501.home'') (S ''1''), vector_row (S ''kube502.home'') (S ''1''),
           vector_row (S ''kube503.home'') (S ''0''), vector_row (S ''kube511.home'') (S ''1.0'')]) =
       Inl ValueError"
proof -
  let ?r = "ClusterHealthReporter (S ''http://prometheus.home'') (S ''daily'') 0"
  let ?s = "K8sHealthManager (S ''t'')"
  let ?a = "json_response three_rows"
  let ?rows = "[vector_row (S ''kube501.home'') (S ''1''), vector_row (S ''kube502.home'') (S ''1''),
       vector_row (S ''kube503.home'') (S ''0'')]"
  let ?es = "[(JStr (S ''kube501.home''), JStr (S ''1'')), (JStr (S ''kube502.home''), JStr (S ''1'')),
       (JStr (S ''kube503.home''), JStr (S ''0''))]"
  let ?ks = "[(S ''kube501.home'', 1), (S ''kube502.home'', 1), (S ''kube503.home'', 0)] :: (pystr \<times> int) list"
  let ?last = "vector_row (S ''kube511.home'') (S ''1.0'')"
  let ?more = "vector_result (?rows @ ?last # [])"
  have h1: "three_nodes (length (sent ?r)) (prometheus_request (r_prometheus_url ?r) (S ''up{job=\"node-exporter\"}'') 30)
      = Returns ?a"
    by (simp add: three_nodes_def)
  have h2: "\<not> (400 \<le> status_code ?a \<and> status_code ?a < 600)"
    and h6: "status_code ?a = 200"
    and h3: "body_json ?a = Inr three_rows"
    by (simp_all add: json_response_def)
  have h4: "sbind (get_result three_rows) iterate = Inr ?rows"
    by (simp add: three_rows_def iterate_vector_result)
  have h5: "list_all2 (\<lambda>item e. item_instance item = Inr (fst e) \<and> row_value item = Inr (snd e)) ?rows ?es"
    by (simp add: vector_row_item vector_row_fields)
  have h9: "list_all2 (\<lambda>row e. row_instance row = Inr (JStr (fst e))
        \<and> sbind (row_value row) (py_int sample_builtins) = Inr (snd e)) ?rows ?ks"
    by (simp add: vector_row_fields sbind_def sample_int_digits)
  have n1: "three_nodes (length (sent ?s)) (prometheus_request (prometheus_url ?s) (S ''up{job='node_exporter'}'') 10)
      = Returns ?a"
    and n2: "three_nodes (length (sent ?s)) (prometheus_request (prometheus_url ?s) (S ''up{job='cadvisor'}'') 10)
      = Returns ?a"
    by (simp_all add: three_nodes_def)
  have r1: "status_code (json_response ?more) = 200 \<and> body_json (json_response ?more) = Inr ?more
      \<and> result_rows ?more = Inr (?rows @ ?last # [])
      \<and> row_instance ?last = Inr (JStr (S ''kube511.home''))
      \<and> sbind (row_value ?last) (py_int sample_builtins) = Inl ValueError"
    by (simp add: json_response_def vector_result_rows vector_row_fields sbind_def sample_int_decimal)
  note claim = up_iff_value_1 [where rnet = three_nodes and r = ?r and net = three_nodes and s = ?s
        and B = sample_builtins, OF h1 h2 h3 h4 h5 h6 h3 three_rows_rows h9]
  note report = claim [THEN conjunct1]
  note dict = claim [THEN conjunct2, THEN conjunct1]
  note health = claim [THEN conjunct2, THEN conjunct2, THEN conjunct2, THEN conjunct1, THEN mp, OF n1, THEN conjunct1]
  note container = claim [THEN conjunct2, THEN conjunct2, THEN conjunct2, THEN conjunct2, THEN conjunct1, THEN mp, OF n2]
  note raises = claim [THEN conjunct2, THEN conjunct2, THEN conjunct2, THEN conjunct2, THEN conjunct2,
      rule_format, OF r1, THEN conjunct1]
  have "fst (check_node_health sample_builtins three_nodes ?s) = Inr False"
    using health by (simp only: check_node_resources_three_nodes) (simp add: manager_nodes)
  then show ?thesis
    using report dict container raises
    by (simp add: manager_nodes manager_report S_append [symmetric])
qed

text \<open>
  C7 as stated fails at the value \<open>1.0\<close>: \<open>int\<close> raises ValueError on the string, so
  the health check does not classify the sample as down, both checks raise; the report
  classifies it as \<open>DOWN\<close>.
\<close>

theorem decimal_value_counterexample:
  "py_int sample_builtins (JStr (S ''1.0'')) = Inl ValueError
   \<and> decimal_up 0 (prometheus_request (S ''http://prometheus.home'') (S ''up{job='node_exporter'}'') 10) =
       Returns (json_response (vector_result [vector_row (S ''kube501.home'') (S ''1.0'')]))
   \<and> status_dict sample_builtins (vector_result [vector_row (S ''kube501.home'') (S ''1.0'')]) = Inl ValueError
   \<and> fst (check_node_health sample_builtins decimal_up (K8sHealthManager (S ''t''))) = Inl ValueError
   \<and> fst (check_container_metrics sample_builtins decimal_up (K8sHealthManager (S ''t''))) = Inl ValueError
   \<and> fst (get_node_status sample_builtins decimal_up
            (ClusterHealthReporter (S ''http://prometheus.home'') (S ''daily'') 0)) =
       Inr [(JStr (S ''kube501.home''), S ''DOWN'')]"
proof -
  let ?r = "ClusterHealthReporter (S ''http://prometheus.home'') (S ''daily'') 0"
  let ?s = "K8sHealthManager (S ''t'')"
  let ?res = "vector_result [vector_row (S ''kube501.home'') (S ''1.0'')]"
  let ?a = "json_response ?res"
  have a: "status_code ?a = 200" "body_json ?a = Inr ?res" "\<not> (400 \<le> status_code ?a \<and> status_code ?a < 600)"
    by (simp_all add: json_response_def)
  have n1: "decimal_up (length (sent ?s)) (prometheus_request (prometheus_url ?s) (S ''up{job='node_exporter'}'') 10)
      = Returns ?a"
    and n2: "decimal_up (length (sent ?s)) (prometheus_request (prometheus_url ?s) (S ''up{job='cadvisor'}'') 10)
      = Returns ?a"
    and n3: "decimal_up (length (sent ?r)) (prometheus_request (r_prometheus_url ?r) (S ''up{job=\"node-exporter\"}'') 30)
      = Returns ?a"
    by (simp_all add: decimal_up_def)
  have items: "list_all2 (\<lambda>item e. item_instance item = Inr (fst e) \<and> row_value item = Inr (snd e))
      [vector_row (S ''kube501.home'') (S ''1.0'')] [(JStr (S ''kube501.home''), JStr (S ''1.0''))]"
    by (simp add: vector_row_item vector_row_fields)
  have "fst (get_node_status sample_builtins decimal_up ?r) = Inr [(JStr (S ''kube501.home''), S ''DOWN'')]"
    using get_node_status_rows [where net = decimal_up and r = ?r and B = sample_builtins,
        OF n3 a(3) a(2) iterate_vector_result items]
    by (simp add: S_def)
  then show ?thesis
    using check_raises [where net = decimal_up and s = ?s, OF a(1,2) truthy_vector_result status_dict_decimal]
      n1 n2
    by (simp add: sample_int_decimal status_dict_decimal decimal_up_def)
qed

text \<open>
  C8, as amended: for the pod counts running 8, pending 1, failed 0, total 9, the section
  of the daily report is the heading, then the four lines \<open>Total: 9\<close>, \<open>Running: 8\<close>,
  \<open>Pending: 1\<close>, \<open>Failed: 0\<close> in this order, then an empty line; and the daily report
  holds these lines between the resource usage and the alerts, whatever the other facts.
\<close>

theorem pod_status_lines:
  "pod_lines [(S ''running'', 8), (S ''pending'', 1), (S ''failed'', 0), (S ''total'', 9)] =
     [S ''## Pod Status'', S ''  Total: 9'', S ''  Running: 8'', S ''  Pending: 1'', S ''  Failed: 0'', []]
   \<and> daily_text B ts nodes usage [(S ''running'', 8), (S ''pending'', 1), (S ''failed'', 0), (S ''total'', 9)] alerts =
       sbind (alert_lines B alerts) (\<lambda>als.
         Inr (join_lines
           (banner_lines B ts @ node_lines B nodes @ usage_lines B usage
            @ [S ''## Pod Status'', S ''  Total: 9'', S ''  Running: 8'', S ''  Pending: 1'', S ''  Failed: 0'', []]
            @ als @ [replicate 60 61])))"
  by (simp add: daily_text_def pod_lines_example)

text \<open>
  C8 as stated fails: on a backend that answers 8 running, 1 pending, nothing for failed
  and 9 in total, the daily report is the text below, where the first of the four lines
  is the total.
\<close>

theorem daily_report_pods_counterexample:
  "fst (generate_daily_report sample_builtins pods_network
         (ClusterHealthReporter (S ''http://prometheus.home/'') (S ''daily'') 0)) =
     Inr (join_lines
       [replicate 60 61,
        S ''Kubernetes Cluster Health Report - Daily'',
        S ''Generated: 1970-01-01 00:00:00'',
        replicate 60 61,
        [],
        S ''## Node Status'',
        [],
        S ''## Resource Usage'',
        S ''### CPU'',
        [],
        S ''### MEMORY'',
        [],
        S ''### DISK'',
        [],
        S ''## Pod Status'',
        S ''  Total: 9'',
        S ''  Running: 8'',
        S ''  Pending: 1'',
        S ''  Failed: 0'',
        [],
        S ''## Active Alerts'',
        S ''  '' @ [0x2705] @ S '' No active alerts'',
        [],
        replicate 60 61])
   \<and> [S ''  Total: 9'', S ''  Running: 8'', S ''  Pending: 1'', S ''  Failed: 0'']
       \<noteq> [S ''  Running: 8'', S ''  Pending: 1'', S ''  Failed: 0'', S ''  Total: 9'']"
  using daily_report_example by simp

text \<open>
  C9, as amended: \<open>generate_weekly_report\<close> reads the clock itself; its text is the
  weekly frame around the text of \<open>generate_daily_report\<close>, and the reading enters only
  the line \<open>Period\<close>, through the two dates it formats to. Two readings that format
  to the same dates give the same result, for the same reporter and the same answers of
  the backend.
\<close>

theorem weekly_report_same_dates:
  assumes "strftime B (now1 - timedelta_days 7) (S ''%Y-%m-%d'') = strftime B (now2 - timedelta_days 7) (S ''%Y-%m-%d'')"
    and "strftime B now1 (S ''%Y-%m-%d'') = strftime B now2 (S ''%Y-%m-%d'')"
  shows "generate_weekly_report B net now1 r = generate_weekly_report B net now2 r
    \<and> fst (generate_weekly_report B net now1 r) =
       (case fst (generate_daily_report B net r) of
          Inl e \<Rightarrow> Inl e
        | Inr daily \<Rightarrow>
            Inr (join_lines
              [replicate 60 61,
               S ''Kubernetes Cluster Health Report - Weekly'',
               S ''Period: '' @ strftime B (now1 - timedelta_days 7) (S ''%Y-%m-%d'') @ S '' to ''
                 @ strftime B now1 (S ''%Y-%m-%d''),
               replicate 60 61,
               [],
               daily,
               [],
               S ''## Weekly Summary'',
               S ''  - Average uptime: Check Prometheus for detailed metrics'',
               S ''  - Resource trends: See Grafana dashboards'',
               S ''  - Incident summary: Review alert history'',
               [],
               replicate 60 61]))"
  using assms weekly_report_text [of B net now1 r]
  by (simp add: generate_weekly_report_def Let_def)

theorem weekly_report_same_dates_witness:
  "strftime sample_builtins (0 - timedelta_days 7) (S ''%Y-%m-%d'') =
     strftime sample_builtins (3600000000 - timedelta_days 7) (S ''%Y-%m-%d'')
   \<and> strftime sample_builtins 0 (S ''%Y-%m-%d'') = strftime sample_builtins 3600000000 (S ''%Y-%m-%d'')
   \<and> generate_weekly_report sample_builtins pods_network 0
         (ClusterHealthReporter (S ''http://prometheus.home/'') (S ''weekly'') 0) =
       generate_weekly_report sample_builtins pods_network 3600000000
         (ClusterHealthReporter (S ''http://prometheus.home/'') (S ''weekly'') 0)"
proof -
  have a: "strftime sample_builtins (0 - timedelta_days 7) (S ''%Y-%m-%d'') =
     strftime sample_builtins (3600000000 - timedelta_days 7) (S ''%Y-%m-%d'')"
    by (simp only: sample_dates)
  have b: "strftime sample_builtins 0 (S ''%Y-%m-%d'') = strftime sample_builtins 3600000000 (S ''%Y-%m-%d'')"
    by (simp only: sample_dates)
  show ?thesis
    using weekly_report_same_dates [OF a b, of pods_network
        "ClusterHealthReporter (S ''http://prometheus.home/'') (S ''weekly'') 0"] a b
    by simp
qed

text \<open>
  C9 as stated fails: for the same reporter, with its timestamp, and the same answers of
  the backend, the weekly report rendered at two readings of the clock one day apart is
  not the same text; and rendering the daily report sends nine requests.
\<close>

theorem weekly_report_clock_counterexample:
  "fst (generate_weekly_report sample_builtins pods_network 0
         (ClusterHealthReporter (S ''http://prometheus.home/'') (S ''daily'') 0))
   \<noteq> fst (generate_weekly_report sample_builtins pods_network 86400000000
         (ClusterHealthReporter (S ''http://prometheus.home/'') (S ''daily'') 0))
   \<and> length (sent (snd (generate_daily_report sample_builtins pods_network
         (ClusterHealthReporter (S ''http://prometheus.home/'') (S ''daily'') 0)))) = 9"
proof -
  let ?r = "ClusterHealthReporter (S ''http://prometheus.home/'') (S ''daily'') 0"
  obtain daily where d: "fst (generate_daily_report sample_builtins pods_network ?r) = Inr daily"
    using daily_report_example by simp
  have "S ''Period: '' @ S ''1969-12-25'' @ S '' to '' @ S ''1970-01-01''
      \<noteq> S ''Period: '' @ S ''1969-12-26'' @ S '' to '' @ S ''1970-01-02''"
    by (simp add: S_def)
  then have "fst (generate_weekly_report sample_builtins pods_network 0 ?r)
      \<noteq> fst (generate_weekly_report sample_builtins pods_network 86400000000 ?r)"
    by (simp only: weekly_report_text d sample_dates sum.case) simp
  then show ?thesis
    using daily_report_requests by simp
qed

text \<open>
  C10: \<open>check_kubernetes_api\<close> sends one request, to \<open>/healthz\<close> of the API server with
  TLS verification off. When the response has status 200 and its stripped text is
  \<open>ok\<close>, it returns true and leaves the report as it is. On any other response it
  records the issue \<open>API server health check failed\<close> with the status code, and on a
  transport failure (a \<open>RequestException\<close>) the issue \<open>Cannot reach Kubernetes API\<close>;
  in both cases it returns false and the status is UNHEALTHY. Any other exception goes
  on to the caller.
\<close>

theorem kubernetes_api_probe:
  "(case check_kubernetes_api B net s of (res, s') \<Rightarrow>
      sent s' = sent s @ [healthz_request (k8s_api_url s)]
      \<and> url (healthz_request (k8s_api_url s)) = k8s_api_url s @ S ''/healthz''
      \<and> verify (healthz_request (k8s_api_url s)) = False
      \<and> (case net (length (sent s)) (healthz_request (k8s_api_url s)) of
           Returns r \<Rightarrow>
             if status_code r = 200 \<and> py_strip B (body_text r) = S ''ok''
             then res = Inr True \<and> health_report s' = health_report s
             else res = Inr False
                  \<and> issues (health_report s') =
                      issues (health_report s) @ [S ''API server health check failed: '' @ str_int (status_code r)]
                  \<and> status_of s' = S ''UNHEALTHY''
         | Raises e \<Rightarrow>
             (case e of
                RequestException m \<Rightarrow>
                  res = Inr False
                  \<and> issues (health_report s') = issues (health_report s) @ [S ''Cannot reach Kubernetes API: '' @ m]
                  \<and> status_of s' = S ''UNHEALTHY''
              | _ \<Rightarrow> res = Inl e \<and> health_report s' = health_report s)))"
proof (cases "net (length (sent s)) (healthz_request (k8s_api_url s))")
  case (Returns r)
  then show ?thesis
    by (simp add: check_kubernetes_api_def try_except_apply requests_call_def andthen_def
        ok_def effect_def reads_def status_add_issue)
      (simp add: healthz_request_def)
next
  case (Raises e)
  then show ?thesis
    by (cases e)
      (simp_all add: check_kubernetes_api_def try_except_apply requests_call_def andthen_def
        ok_def effect_def reads_def status_add_issue, simp_all add: healthz_request_def)
qed

end
